theory Spec2Isabelle
  imports Complex_Main
begin

section \<open>The real-time cognitive-load pipeline of \<^verbatim>\<open>real_time_prediction.py\<close>\<close>

text \<open>
  The script receives OSC samples (\<^verbatim>\<open>generic_handler\<close>), stores them in one bounded
  buffer per channel, and every two seconds runs one pass of \<^verbatim>\<open>aggregate_and_save\<close>:
  it derives the blood volume amplitude from the buffered \<^verbatim>\<open>PPG:IR\<close> samples, averages
  every other channel, appends a row to the main file and, when EDA, T1 and BVA are all
  present, classifies the triple, appends it to the two other files and feeds the label to
  the alert history.

  Samples are modelled as \<^typ>\<open>real\<close> (the source holds Python floats; orderings and the
  additions of the model are those of the reals), labels and channel names as
  \<^typ>\<open>string\<close>. A Python \<^verbatim>\<open>None\<close> is \<^term>\<open>None\<close>; an exception is the left
  summand of a result.
\<close>

subsection \<open>Exceptions\<close>

datatype py_error = KeyError string | IndexError | ValueError | Raised string

subsection \<open>Configuration\<close>

definition fieldnames :: "string list" where
  "fieldnames =
     [''timestamp'', ''ACC:X'', ''ACC:Y'', ''ACC:Z'',
      ''PPG:RED'', ''PPG:IR'', ''PPG:GRN'', ''EDA'', ''HUMIDITY'', ''TEMP'', ''T1'', ''HR'', ''BVA'',
      ''GYRO:X'', ''GYRO:Y'', ''GYRO:Z'', ''MAG:X'', ''MAG:Y'', ''MAG:Z'']"

subsection \<open>Bounded deques\<close>

text \<open>
  \<^verbatim>\<open>deque(maxlen=n).append(v)\<close>: a full deque drops its oldest (leftmost) element, then
  the new element is added on the right.
\<close>

definition deque_append :: "nat \<Rightarrow> 'a list \<Rightarrow> 'a \<Rightarrow> 'a list" where
  "deque_append maxlen d v = (if length d < maxlen then d @ [v] else tl d @ [v])"

subsection \<open>The channel buffers and the OSC handler\<close>

text \<open>
  \<^verbatim>\<open>data_buffer = defaultdict(lambda: deque(maxlen=500))\<close>: every channel name has a
  buffer, empty until a sample arrives.
\<close>

type_synonym buffers = "string \<Rightarrow> real list"

definition split_last :: "string \<Rightarrow> string" where
  \<comment> \<open>\<^verbatim>\<open>address.split("/")[-1]\<close>: what follows the last slash\<close>
  "split_last address = rev (takeWhile (\<lambda>c. c \<noteq> CHR ''/'') (rev address))"

definition generic_handler :: "string \<Rightarrow> real list \<Rightarrow> buffers \<Rightarrow> py_error + buffers" where
  "generic_handler address args data_buffer =
     (case args of
        [] \<Rightarrow> Inl IndexError
      | val # _ \<Rightarrow>
          (let signal = split_last address;
               signal = (if signal = ''TEMP2'' then ''T1'' else signal)
           in Inr (data_buffer(signal := deque_append 500 (data_buffer signal) val))))"

subsection \<open>Peak detection (\<^verbatim>\<open>scipy.signal.find_peaks\<close> without conditions)\<close>

text \<open>
  \<^verbatim>\<open>find_peaks(x)\<close> with no condition returns what SciPy's \<^verbatim>\<open>_local_maxima_1d\<close>
  finds: it walks the samples from index 1 to the last but one; where a sample is greater
  than its left neighbour it looks ahead over the samples equal to it, and when the next
  different sample is smaller it records the middle of the flat stretch and goes on after
  it. A strict local maximum is a flat stretch of length one. The two loops of that routine
  are the two functions below.
\<close>

function skip_plateau :: "real list \<Rightarrow> nat \<Rightarrow> nat \<Rightarrow> nat" where
  "skip_plateau x i i_ahead =
     (if i_ahead < length x - 1 \<and> x ! i_ahead = x ! i
      then skip_plateau x i (i_ahead + 1)
      else i_ahead)"
  by pat_completeness auto
termination
  by (relation "measure (\<lambda>(x, i, i_ahead). length x - 1 - i_ahead)") auto

declare skip_plateau.simps [simp del]

lemma skip_plateau_ge: "i_ahead \<le> skip_plateau x i i_ahead"
proof (induction x i i_ahead rule: skip_plateau.induct)
  case (1 x i i_ahead)
  show ?case
  proof (cases "i_ahead < length x - 1 \<and> x ! i_ahead = x ! i")
    case True
    with 1 have "i_ahead + 1 \<le> skip_plateau x i (i_ahead + 1)" by simp
    with True show ?thesis by (subst skip_plateau.simps) simp
  next
    case False
    then show ?thesis by (subst skip_plateau.simps) auto
  qed
qed

function local_maxima_loop :: "real list \<Rightarrow> nat \<Rightarrow> nat list \<Rightarrow> nat list" where
  "local_maxima_loop x i midpoints =
     (if i < length x - 1 then
        (if x ! (i - 1) < x ! i then
           (if x ! (skip_plateau x i (i + 1)) < x ! i
            then local_maxima_loop x (skip_plateau x i (i + 1) + 1)
                   (midpoints @ [(i + (skip_plateau x i (i + 1) - 1)) div 2])
            else local_maxima_loop x (i + 1) midpoints)
         else local_maxima_loop x (i + 1) midpoints)
      else midpoints)"
  by pat_completeness auto
termination
proof (relation "measure (\<lambda>(x, i, midpoints). length x - i)")
  show "wf (measure (\<lambda>(x, i, midpoints). length x - i))" by simp
next
  fix x :: "real list" and i :: nat and midpoints :: "nat list"
  assume "i < length x - 1"
  moreover have "i + 1 \<le> skip_plateau x i (i + 1)" by (rule skip_plateau_ge)
  ultimately show
    "((x, skip_plateau x i (i + 1) + 1,
       midpoints @ [(i + (skip_plateau x i (i + 1) - 1)) div 2]), (x, i, midpoints))
      \<in> measure (\<lambda>(x, i, midpoints). length x - i)"
    by simp
qed auto

declare local_maxima_loop.simps [simp del]

definition find_peaks :: "real list \<Rightarrow> nat list" where
  "find_peaks x = local_maxima_loop x 1 []"

subsection \<open>Blood volume amplitude\<close>

definition compute_bva :: "real list \<Rightarrow> real option" where
  "compute_bva ppg_values =
     (if length ppg_values < 10 then None
      else
        (let peaks = find_peaks ppg_values;
             troughs = find_peaks (map uminus ppg_values)
         in if length peaks = 0 \<or> length troughs = 0 then None
            else Some \<bar>ppg_values ! last peaks - ppg_values ! last troughs\<bar>))"

text \<open>The notions the statements about \<^const>\<open>compute_bva\<close> are phrased with.\<close>

definition strict_local_max :: "real list \<Rightarrow> nat \<Rightarrow> bool" where
  "strict_local_max x k \<longleftrightarrow>
     0 < k \<and> k + 1 < length x \<and> x ! (k - 1) < x ! k \<and> x ! (k + 1) < x ! k"

definition strict_local_min :: "real list \<Rightarrow> nat \<Rightarrow> bool" where
  "strict_local_min x k \<longleftrightarrow>
     0 < k \<and> k + 1 < length x \<and> x ! k < x ! (k - 1) \<and> x ! k < x ! (k + 1)"

definition ppg_example :: "real list" where
  "ppg_example = [1, 5, 2, 8, 3, 9, 1, 6, 2, 7]"

subsection \<open>Min-max rescaling (\<^verbatim>\<open>MinMaxScaler(feature_range=(0, 1)).fit_transform\<close>)\<close>

text \<open>
  One feature column. The fit takes the column's minimum and maximum; a range below ten
  machine epsilons counts as constant and is replaced by 1 before the division
  (scikit-learn's \<^verbatim>\<open>_handle_zeros_in_scale\<close>); an empty column is refused.
\<close>

definition float_eps :: real where
  "float_eps = 1 / 2 ^ 52"

definition handle_zeros_in_scale :: "real \<Rightarrow> real" where
  "handle_zeros_in_scale scale = (if scale < 10 * float_eps then 1 else scale)"

definition minmax_fit_transform :: "real list \<Rightarrow> py_error + real list" where
  "minmax_fit_transform X =
     (if X = [] then Inl ValueError
      else
        (let data_min = Min (set X);
             data_max = Max (set X);
             data_range = data_max - data_min;
             scale = (1 - 0) / handle_zeros_in_scale data_range;
             min_offset = 0 - data_min * scale
         in Inr (map (\<lambda>x. x * scale + min_offset) X)))"

definition first_item :: "'a list \<Rightarrow> py_error + 'a" where
  \<comment> \<open>\<^verbatim>\<open>xs[0]\<close>\<close>
  "first_item xs = (case xs of [] \<Rightarrow> Inl IndexError | x # _ \<Rightarrow> Inr x)"

subsection \<open>The classifier and its collaborators\<close>

text \<open>
  The four artifacts are opaque: each is a function that may raise. \<^verbatim>\<open>pandas_frame\<close>
  stands for the import of pandas and the construction of the one-row frame, which
  may raise as well. A collaborator that was not loaded is \<^term>\<open>None\<close>.
\<close>

type_synonym features = "real \<times> real \<times> real"

record ml_components =
  clf :: "(features \<Rightarrow> py_error + int) option"
  std_scaler :: "(features \<Rightarrow> py_error + features) option"
  bva_scaler :: "(real \<Rightarrow> py_error + real) option"
  label_encoder :: "(int \<Rightarrow> py_error + string) option"
  pandas_frame :: "features \<Rightarrow> py_error + features"

definition load_ml_components ::
  "(py_error + (features \<Rightarrow> py_error + int)) \<Rightarrow>
   (py_error + (features \<Rightarrow> py_error + features)) \<Rightarrow>
   (py_error + (real \<Rightarrow> py_error + real)) \<Rightarrow>
   (py_error + (int \<Rightarrow> py_error + string)) \<Rightarrow>
   (features \<Rightarrow> py_error + features) \<Rightarrow> ml_components" where
  \<comment> \<open>the four \<^verbatim>\<open>joblib.load\<close> calls under one \<^verbatim>\<open>try\<close>: one failure leaves all four unset\<close>
  "load_ml_components load_clf load_std load_bva load_enc frame =
     (case (load_clf, load_std, load_bva, load_enc) of
        (Inr c, Inr s, Inr b, Inr e) \<Rightarrow>
          \<lparr>clf = Some c, std_scaler = Some s, bva_scaler = Some b, label_encoder = Some e,
           pandas_frame = frame\<rparr>
      | _ \<Rightarrow>
          \<lparr>clf = None, std_scaler = None, bva_scaler = None, label_encoder = None,
           pandas_frame = frame\<rparr>)"

definition scoring ::
  "(features \<Rightarrow> py_error + features) \<Rightarrow> (features \<Rightarrow> py_error + int) \<Rightarrow>
   (features \<Rightarrow> py_error + features) \<Rightarrow> (real \<Rightarrow> py_error + real) \<Rightarrow>
   (int \<Rightarrow> py_error + string) \<Rightarrow> real \<Rightarrow> real \<Rightarrow> real \<Rightarrow> py_error + string" where
  \<comment> \<open>the body of the \<^verbatim>\<open>try\<close> block of \<^verbatim>\<open>predict_cognitive_load\<close>\<close>
  "scoring frame c s b e eda temp bva =
     (case frame (eda, temp, bva) of
        Inl exn \<Rightarrow> Inl exn
      | Inr (f_eda, f_temp, f_bva) \<Rightarrow>
          (case b f_bva of
             Inl exn \<Rightarrow> Inl exn
           | Inr bva_01 \<Rightarrow>
               (case s (f_eda, f_temp, bva_01) of
                  Inl exn \<Rightarrow> Inl exn
                | Inr features_scaled \<Rightarrow>
                    (case c features_scaled of
                       Inl exn \<Rightarrow> Inl exn
                     | Inr prediction_num \<Rightarrow> e prediction_num))))"

definition predict_cognitive_load :: "ml_components \<Rightarrow> real \<Rightarrow> real \<Rightarrow> real \<Rightarrow> string" where
  "predict_cognitive_load ml eda temp bva =
     (if clf ml = None \<or> std_scaler ml = None \<or> bva_scaler ml = None \<or> label_encoder ml = None
      then ''MODEL_NOT_LOADED''
      else
        (case scoring (pandas_frame ml) (the (clf ml)) (the (std_scaler ml))
                (the (bva_scaler ml)) (the (label_encoder ml)) eda temp bva of
           Inr label \<Rightarrow> label
         | Inl exn \<Rightarrow> ''PREDICTION_ERROR''))"

subsection \<open>The alert transport\<close>

text \<open>
  \<^verbatim>\<open>str.upper\<close> on the letters of ASCII; the labels of the model are ASCII, so that
  \<^verbatim>\<open>message.encode()\<close> is the text itself.
\<close>

definition upper_char :: "char \<Rightarrow> char" where
  "upper_char c =
     (case map_of (zip ''abcdefghijklmnopqrstuvwxyz'' ''ABCDEFGHIJKLMNOPQRSTUVWXYZ'') c of
        Some u \<Rightarrow> u
      | None \<Rightarrow> c)"

definition upper :: "string \<Rightarrow> string" where
  "upper s = map upper_char s"

text \<open>
  The socket is a parameter: \<open>sendto message\<close> is what \<^verbatim>\<open>unity_socket.sendto\<close> does
  with the encoded message, \<^term>\<open>Inr ()\<close> when the datagram left and \<^term>\<open>Inl e\<close> when
  the call raised. The log records each call of \<^verbatim>\<open>send_unity_alert\<close> with its outcome.
\<close>

datatype send_event = Sent string | SendFailed string py_error

type_synonym socket = "string \<Rightarrow> py_error + unit"

definition send_unity_alert :: "socket \<Rightarrow> string \<Rightarrow> send_event list \<Rightarrow> send_event list" where
  "send_unity_alert sendto message outbox =
     (case sendto message of
        Inr _ \<Rightarrow> outbox @ [Sent message]
      | Inl e \<Rightarrow> outbox @ [SendFailed message e])"

subsection \<open>The alert history\<close>

text \<open>
  Lines 202 to 211 of \<^verbatim>\<open>aggregate_and_save\<close>: the label is appended to
  \<^verbatim>\<open>last_predictions = deque(maxlen=10)\<close>; when the deque then holds ten labels that form
  a one-element set, the alert is sent and the deque cleared. The test is written with
  the literal 10; the constant \<^verbatim>\<open>ALERT_THRESHOLD = 9\<close> of the script is read nowhere.
\<close>

fun update_history :: "socket \<Rightarrow> string \<Rightarrow> string list \<times> send_event list \<Rightarrow> string list \<times> send_event list" where
  "update_history sendto cognitive_load (last_predictions, outbox) =
     (let last_predictions = deque_append 10 last_predictions cognitive_load
      in if length last_predictions \<ge> 10 then
           (if card (set last_predictions) = 1 then
              (let alert_message = ''ALERT|'' @ upper cognitive_load
               in ([], send_unity_alert sendto alert_message outbox))
            else (last_predictions, outbox))
         else (last_predictions, outbox))"

declare update_history.simps [simp del]

text \<open>Feeding a sequence of labels, one pass after the other.\<close>

fun feed_labels :: "socket \<Rightarrow> string list \<Rightarrow> string list \<times> send_event list \<Rightarrow> string list \<times> send_event list" where
  "feed_labels sendto [] st = st"
| "feed_labels sendto (l # ls) st = feed_labels sendto ls (update_history sendto l st)"

subsection \<open>One pass of the aggregation loop\<close>

text \<open>
  A row of the main file is a dictionary from column names to values, a value being a
  number or \<^verbatim>\<open>None\<close>.
\<close>

type_synonym row = "string \<rightharpoonup> real option"

definition row_get :: "row \<Rightarrow> string \<Rightarrow> py_error + real option" where
  \<comment> \<open>\<^verbatim>\<open>row[key]\<close>\<close>
  "row_get r key = (case r key of None \<Rightarrow> Inl (KeyError key) | Some v \<Rightarrow> Inr v)"

text \<open>
  The loop over \<^verbatim>\<open>fieldnames[1:]\<close> (lines 158 to 165). The division stands under the
  test that the buffer is not empty.
\<close>

fun aggregate_channels :: "string list \<Rightarrow> row \<Rightarrow> buffers \<Rightarrow> row \<times> buffers" where
  "aggregate_channels [] r data_buffer = (r, data_buffer)"
| "aggregate_channels (key # keys) r data_buffer =
     (if key = ''BVA'' then aggregate_channels keys r data_buffer
      else if data_buffer key \<noteq> [] then
        aggregate_channels keys
          (r(key \<mapsto> Some (sum_list (data_buffer key) / real (length (data_buffer key)))))
          (data_buffer(key := []))
      else aggregate_channels keys (r(key \<mapsto> None)) data_buffer)"

text \<open>
  The state of the process: the buffers, the alert history, the rows appended to the
  three files (after their header lines) and the log of the alert transport. Appending
  to a file is taken to succeed.
\<close>

record state =
  data_buffer :: buffers
  last_predictions :: "string list"
  csv_file :: "row list"
  cogload_file :: "features list"
  prediction_file :: "(real \<times> real \<times> real \<times> real \<times> string) list"
  unity_log :: "send_event list"

definition scale_bva :: "real option \<Rightarrow> py_error + real option" where
  \<comment> \<open>lines 149 to 152: a fresh fit on the one value of this pass\<close>
  "scale_bva bva_value =
     (case bva_value of
        None \<Rightarrow> Inr None
      | Some v \<Rightarrow>
          (case minmax_fit_transform [v] of
             Inl exn \<Rightarrow> Inl exn
           | Inr col \<Rightarrow> (case first_item col of Inl exn \<Rightarrow> Inl exn | Inr y \<Rightarrow> Inr (Some y))))"

definition save_and_alert ::
  "ml_components \<Rightarrow> socket \<Rightarrow> real \<Rightarrow> row \<Rightarrow> real option \<Rightarrow> real option \<Rightarrow> real option \<Rightarrow>
   state \<Rightarrow> state" where
  \<comment> \<open>lines 174 to 211, outside the lock\<close>
  "save_and_alert ml sendto timestamp r eda temp bva s =
     (let s = s\<lparr>csv_file := csv_file s @ [r]\<rparr>
      in case (eda, temp, bva) of
           (Some e, Some t, Some b) \<Rightarrow>
             (let s = s\<lparr>cogload_file := cogload_file s @ [(e, t, b)]\<rparr>;
                  cognitive_load = predict_cognitive_load ml e t b;
                  s = s\<lparr>prediction_file := prediction_file s @ [(timestamp, e, t, b, cognitive_load)]\<rparr>;
                  (h, outbox) = update_history sendto cognitive_load (last_predictions s, unity_log s)
              in s\<lparr>last_predictions := h, unity_log := outbox\<rparr>)
         | _ \<Rightarrow> s)"

definition aggregate_and_save_pass ::
  "ml_components \<Rightarrow> socket \<Rightarrow> real \<Rightarrow> state \<Rightarrow> py_error + state" where
  "aggregate_and_save_pass ml sendto timestamp s =
     (let r = [''timestamp'' \<mapsto> Some timestamp];
          ppg_ir_values = data_buffer s ''PPG:IR'';
          bva_value = compute_bva ppg_ir_values
      in case scale_bva bva_value of
           Inl exn \<Rightarrow> Inl exn
         | Inr bva_scaled \<Rightarrow>
             (let r = r(''BVA'' \<mapsto> bva_value);
                  (r, buf) = aggregate_channels (tl fieldnames) r (data_buffer s);
                  buf = buf(''PPG:IR'' := [])
              in case row_get r ''EDA'' of
                   Inl exn \<Rightarrow> Inl exn
                 | Inr eda \<Rightarrow>
                     (case row_get r ''T1'' of
                        Inl exn \<Rightarrow> Inl exn
                      | Inr temp \<Rightarrow>
                          Inr (save_and_alert ml sendto timestamp r eda temp bva_scaled
                                 (s\<lparr>data_buffer := buf\<rparr>)))))"

text \<open>
  A run: before each pass the producer delivers some OSC messages (a handler call that
  raises leaves the buffers as they were), then the pass runs with its timestamp and
  with what the socket does during it.
\<close>

fun receive :: "(string \<times> real list) list \<Rightarrow> buffers \<Rightarrow> buffers" where
  "receive [] b = b"
| "receive ((address, args) # ms) b =
     (case generic_handler address args b of
        Inl exn \<Rightarrow> receive ms b
      | Inr b' \<Rightarrow> receive ms b')"

record pass_input =
  messages :: "(string \<times> real list) list"
  timestamp :: real
  sendto :: socket

fun run_passes :: "ml_components \<Rightarrow> pass_input list \<Rightarrow> state \<Rightarrow> py_error + state" where
  "run_passes ml [] s = Inr s"
| "run_passes ml (p # ps) s =
     (case aggregate_and_save_pass ml (sendto p) (timestamp p)
             (s\<lparr>data_buffer := receive (messages p) (data_buffer s)\<rparr>) of
        Inl exn \<Rightarrow> Inl exn
      | Inr s' \<Rightarrow> run_passes ml ps s')"

subsection \<open>Notions used in the statements\<close>

text \<open>
  What a channel contributes to a row: the arithmetic mean of its buffered samples, or
  the missing marker when it has none.
\<close>

definition mean_or_missing :: "real list \<Rightarrow> real option" where
  "mean_or_missing xs = (if xs = [] then None else Some (sum_list xs / real (length xs)))"

text \<open>
  The buffers give a full feature vector when EDA and T1 have samples and the PPG:IR
  samples yield an amplitude.
\<close>

definition full_vector :: "buffers \<Rightarrow> bool" where
  "full_vector b \<longleftrightarrow> b ''EDA'' \<noteq> [] \<and> b ''T1'' \<noteq> [] \<and> compute_bva (b ''PPG:IR'') \<noteq> None"

fun every_pass_full :: "ml_components \<Rightarrow> pass_input list \<Rightarrow> state \<Rightarrow> bool" where
  "every_pass_full ml [] s = True"
| "every_pass_full ml (p # ps) s =
     (let b = receive (messages p) (data_buffer s)
      in full_vector b \<and>
         (case aggregate_and_save_pass ml (sendto p) (timestamp p) (s\<lparr>data_buffer := b\<rparr>) of
            Inl exn \<Rightarrow> False
          | Inr s' \<Rightarrow> every_pass_full ml ps s'))"

text \<open>Sample data for the closed instances: a fresh process, and artifacts that failed to load.\<close>

definition initial_state :: state where
  "initial_state =
     \<lparr>data_buffer = (\<lambda>channel. []), last_predictions = [], csv_file = [], cogload_file = [],
      prediction_file = [], unity_log = []\<rparr>"

definition not_loaded :: ml_components where
  "not_loaded =
     load_ml_components (Inl (Raised ''No such file or directory'')) (Inl (Raised ''not reached''))
       (Inl (Raised ''not reached'')) (Inl (Raised ''not reached'')) Inr"

definition ppg_messages :: "(string \<times> real list) list" where
  "ppg_messages = map (\<lambda>v. (''/EmotiBit/0/PPG:IR'', [v])) ppg_example"

definition full_pass :: pass_input where
  "full_pass =
     \<lparr>messages = (''/EmotiBit/0/EDA'', [1 / 2]) # (''/EmotiBit/0/TEMP2'', [30]) # ppg_messages,
      timestamp = 0, sendto = (\<lambda>message. Inr ())\<rparr>"

definition full_state :: state where
  "full_state =
     initial_state\<lparr>data_buffer := receive (messages full_pass) (data_buffer initial_state)\<rparr>"

definition temp_only_state :: state where
  "temp_only_state =
     initial_state\<lparr>data_buffer :=
       (\<lambda>channel. [])(''EDA'' := [1 / 2], ''TEMP'' := [30], ''PPG:IR'' := ppg_example)\<rparr>"

section \<open>The alert history\<close>

lemma feed_labels_append:
  "feed_labels sock (xs @ ys) st = feed_labels sock ys (feed_labels sock xs st)"
  by (induction xs arbitrary: st) simp_all

lemma update_history_short:
  "length h < 9 \<Longrightarrow> update_history sock l (h, out) = (h @ [l], out)"
  by (simp add: update_history.simps deque_append_def)

lemma feed_labels_short:
  "length h + length ls < 10 \<Longrightarrow> feed_labels sock ls (h, out) = (h @ ls, out)"
proof (induction ls arbitrary: h)
  case Nil
  then show ?case by simp
next
  case (Cons l ls)
  then have "length h < 9" by simp
  then have "update_history sock l (h, out) = (h @ [l], out)" by (rule update_history_short)
  with Cons show ?case by simp
qed

lemma update_history_fire:
  "length (deque_append 10 h l) \<ge> 10 \<Longrightarrow> card (set (deque_append 10 h l)) = 1 \<Longrightarrow>
   update_history sock l (h, out) = ([], send_unity_alert sock (''ALERT|'' @ upper l) out)"
  by (simp add: update_history.simps Let_def)

lemma update_history_tenth:
  "update_history sock l (replicate 9 l, out) =
     ([], send_unity_alert sock (''ALERT|'' @ upper l) out)"
proof -
  have d: "deque_append 10 (replicate 9 l) l = replicate 10 l"
    by (simp add: deque_append_def replicate_append_same eval_nat_numeral)
  show ?thesis
    by (rule update_history_fire) (simp_all add: d)
qed

lemma length_send_unity_alert: "length (send_unity_alert sock m out) = Suc (length out)"
  by (simp add: send_unity_alert_def split: sum.split)

text \<open>
  Claim C1. From an empty history, ten equal labels send exactly one alert, at the tenth
  label and for that label: fewer than ten labels leave the log as it was, the tenth adds
  one call of the transport with the message of the label and empties the history, and
  after it fewer than ten further labels, whatever they are, send nothing more.
\<close>

theorem alert_fires_once_on_ten_identical:
  "(\<forall>k<10. feed_labels sock (replicate k l) ([], out) = (replicate k l, out)) \<and>
   feed_labels sock (replicate 10 l) ([], out) =
     ([], send_unity_alert sock (''ALERT|'' @ upper l) out) \<and>
   length (send_unity_alert sock (''ALERT|'' @ upper l) out) = length out + 1 \<and>
   (\<forall>ls. length ls < 10 \<longrightarrow>
      feed_labels sock (replicate 10 l @ ls) ([], out) =
        (ls, send_unity_alert sock (''ALERT|'' @ upper l) out))"
proof -
  have nine: "feed_labels sock (replicate 9 l) ([], out) = (replicate 9 l, out)"
    using feed_labels_short [of "[]" "replicate 9 l" sock out] by simp
  have "replicate 10 l = replicate 9 l @ [l]"
    by (simp add: replicate_append_same eval_nat_numeral)
  then have ten: "feed_labels sock (replicate 10 l) ([], out) =
      ([], send_unity_alert sock (''ALERT|'' @ upper l) out)"
    using nine by (simp only: feed_labels_append feed_labels.simps update_history_tenth)
  have before: "\<forall>k<10. feed_labels sock (replicate k l) ([], out) = (replicate k l, out)"
    using feed_labels_short [of "[]" _ sock out] by simp
  have after: "\<forall>ls. length ls < 10 \<longrightarrow>
      feed_labels sock (replicate 10 l @ ls) ([], out) =
        (ls, send_unity_alert sock (''ALERT|'' @ upper l) out)"
    using feed_labels_short [of "[]" _ sock] by (simp add: feed_labels_append ten)
  from before ten after show ?thesis by (simp add: length_send_unity_alert)
qed

theorem alert_fires_once_on_ten_identical_witness:
  "feed_labels (\<lambda>m. Inr ()) (replicate 3 ''High'') ([], []) = (replicate 3 ''High'', []) \<and>
   feed_labels (\<lambda>m. Inr ()) (replicate 10 ''High'') ([], []) = ([], [Sent ''ALERT|HIGH'']) \<and>
   feed_labels (\<lambda>m. Inr ()) (replicate 10 ''High'' @ [''High'', ''Low'']) ([], []) =
     ([''High'', ''Low''], [Sent ''ALERT|HIGH''])"
  using alert_fires_once_on_ten_identical [of "\<lambda>m. Inr ()" "''High''" "[]"]
  by (simp add: send_unity_alert_def upper_def upper_char_def)

lemma length_update_history:
  "length h \<le> 10 \<Longrightarrow> length (fst (update_history sock l (h, out))) \<le> 10"
  by (simp add: update_history.simps deque_append_def Let_def)

lemma length_feed_labels:
  "length (fst st) \<le> 10 \<Longrightarrow> length (fst (feed_labels sock ls st)) \<le> 10"
proof (induction ls arbitrary: st)
  case Nil
  then show ?case by simp
next
  case (Cons l ls)
  obtain h out where st: "st = (h, out)" by (cases st)
  with Cons.prems have "length (fst (update_history sock l st)) \<le> 10"
    by (simp add: length_update_history)
  then show ?case by (simp add: Cons.IH)
qed

lemma update_history_full_mismatch:
  "length h = 10 \<Longrightarrow> card (set (tl h @ [l])) \<noteq> 1 \<Longrightarrow>
   update_history sock l (h, out) = (tl h @ [l], out)"
  by (simp add: update_history.simps deque_append_def Let_def)

lemma update_history_not_full:
  "length h < 10 \<Longrightarrow> \<not> (length h = 9 \<and> card (set (h @ [l])) = 1) \<Longrightarrow>
   update_history sock l (h, out) = (h @ [l], out)"
  by (auto simp add: update_history.simps deque_append_def Let_def)

lemma card_set_two: "a \<noteq> b \<Longrightarrow> card (set (replicate 9 a @ [b])) \<noteq> 1"
  by (simp add: card_insert_if)

text \<open>
  Claim C2, as the code has it. The history never holds more than ten labels. When it
  already holds ten and the window after the append is not unanimous, exactly the oldest
  label leaves, the new one enters on the right and nothing is sent. When it holds fewer
  than ten, the append evicts nothing (and sends nothing unless it completes ten equal
  labels). Nine equal labels and then a different one, from the empty history, leave
  the nine labels followed by the different one: ten entries, none replaced, nothing sent.
\<close>

theorem history_bounded_and_slides:
  "(length h \<le> 10 \<longrightarrow> length (fst (feed_labels sock ls (h, out))) \<le> 10) \<and>
   (length h = 10 \<and> card (set (tl h @ [l])) \<noteq> 1 \<longrightarrow>
      update_history sock l (h, out) = (tl h @ [l], out)) \<and>
   (length h < 10 \<and> \<not> (length h = 9 \<and> card (set (h @ [l])) = 1) \<longrightarrow>
      update_history sock l (h, out) = (h @ [l], out)) \<and>
   (a \<noteq> b \<longrightarrow>
      feed_labels sock (replicate 9 a @ [b]) ([], out) = (replicate 9 a @ [b], out))"
proof -
  have bounded: "length h \<le> 10 \<longrightarrow> length (fst (feed_labels sock ls (h, out))) \<le> 10"
    using length_feed_labels [of "(h, out)" sock ls] by simp
  have nine_one: "feed_labels sock (replicate 9 a @ [b]) ([], out) = (replicate 9 a @ [b], out)"
    if "a \<noteq> b"
  proof -
    have "feed_labels sock (replicate 9 a) ([], out) = (replicate 9 a, out)"
      using feed_labels_short [of "[]" "replicate 9 a" sock out] by simp
    moreover have "update_history sock b (replicate 9 a, out) = (replicate 9 a @ [b], out)"
      using that by (intro update_history_not_full) (simp_all add: card_insert_if)
    ultimately show ?thesis
      by (simp only: feed_labels_append feed_labels.simps)
  qed
  from bounded nine_one show ?thesis
    using update_history_full_mismatch [of h l sock out] update_history_not_full [of h l sock out]
    by blast
qed

theorem history_bounded_and_slides_witness:
  "length (fst (feed_labels (\<lambda>m. Inr ()) (replicate 25 ''Low'') ([], []))) \<le> 10 \<and>
   update_history (\<lambda>m. Inr ()) ''Low'' (replicate 9 ''Low'' @ [''High''], []) =
     (replicate 8 ''Low'' @ [''High'', ''Low''], []) \<and>
   update_history (\<lambda>m. Inr ()) ''High'' (replicate 9 ''Low'', []) =
     (replicate 9 ''Low'' @ [''High''], []) \<and>
   feed_labels (\<lambda>m. Inr ()) (replicate 9 ''Low'' @ [''High'']) ([], []) =
     (replicate 9 ''Low'' @ [''High''], [])"
proof -
  let ?S = "(\<lambda>m. Inr ()) :: socket"
  let ?h = "replicate 9 ''Low'' @ [''High'']"
  have t: "tl ?h @ [''Low''] = replicate 8 ''Low'' @ [''High'', ''Low'']"
    by (simp add: eval_nat_numeral)
  have c: "card (set (tl ?h @ [''Low''])) \<noteq> 1"
    unfolding t by (simp add: card_insert_if)
  have c2: "card (set (replicate 9 ''Low'' @ [''High''])) \<noteq> 1"
    by (simp add: card_insert_if)
  have len: "length ?h = 10" by simp
  have "length (fst (feed_labels ?S (replicate 25 ''Low'') ([], []))) \<le> 10"
    using history_bounded_and_slides
      [of "[]" ?S "replicate 25 ''Low''" "[]" "''Low''" "''Low''" "''High''"]
    by simp
  moreover have "update_history ?S ''Low'' (?h, []) = (tl ?h @ [''Low''], [])"
    using history_bounded_and_slides [of ?h ?S "[]" "[]" "''Low''" "''Low''" "''High''"] c len
    by blast
  moreover have "update_history ?S ''High'' (replicate 9 ''Low'', []) = (?h, [])"
    using history_bounded_and_slides
      [of "replicate 9 ''Low''" ?S "[]" "[]" "''High''" "''Low''" "''High''"] c2
    by simp
  moreover have "feed_labels ?S ?h ([], []) = (?h, [])"
    using history_bounded_and_slides
      [of "[]" ?S "[]" "[]" "''High''" "''Low''" "''High''"]
    by simp
  ultimately show ?thesis unfolding t by blast
qed

text \<open>
  The reading of C2 under which the tenth, different label takes the place of the oldest
  entry fails: after nine times \<open>Low\<close> and once \<open>High\<close> the history is the nine \<open>Low\<close>
  followed by \<open>High\<close>; it is not the previous history without its oldest entry plus
  \<open>High\<close>, and its oldest entry is still \<open>Low\<close>.
\<close>

theorem nine_then_one_replaces_oldest_counterexample:
  "fst (feed_labels (\<lambda>m. Inr ()) (replicate 9 ''Low'' @ [''High'']) ([], [])) =
     replicate 9 ''Low'' @ [''High''] \<and>
   fst (update_history (\<lambda>m. Inr ()) ''High'' (replicate 9 ''Low'', [])) \<noteq>
     tl (replicate 9 ''Low'') @ [''High''] \<and>
   hd (fst (feed_labels (\<lambda>m. Inr ()) (replicate 9 ''Low'' @ [''High'']) ([], []))) = ''Low''"
  by (simp add: eval_nat_numeral update_history.simps deque_append_def card_insert_if)

lemma upper_char_not_lower: "upper_char c \<notin> set ''abcdefghijklmnopqrstuvwxyz''"
  by (simp add: upper_char_def)

text \<open>
  Claim C7. When the window after the append holds ten equal labels, the transport is
  called once with \<open>ALERT|\<close> followed by the upper-cased label (no lower-case letter is
  left in it). When the call succeeds the log gains that datagram; when it raises, the
  log gains the one failed attempt, nothing is sent again and no error reaches the
  caller; in both cases the history is empty afterwards.
\<close>

theorem alert_message_and_send_failure:
  "10 \<le> length (deque_append 10 h l) \<and> card (set (deque_append 10 h l)) = 1 \<longrightarrow>
     (sock (''ALERT|'' @ upper l) = Inr () \<longrightarrow>
        update_history sock l (h, out) = ([], out @ [Sent (''ALERT|'' @ upper l)])) \<and>
     (\<forall>e. sock (''ALERT|'' @ upper l) = Inl e \<longrightarrow>
        update_history sock l (h, out) = ([], out @ [SendFailed (''ALERT|'' @ upper l) e])) \<and>
     (\<forall>c\<in>set (upper l). c \<notin> set ''abcdefghijklmnopqrstuvwxyz'') \<and>
     length (upper l) = length l"
proof -
  have up: "\<forall>c\<in>set (upper l). c \<notin> set ''abcdefghijklmnopqrstuvwxyz''"
    unfolding upper_def using upper_char_not_lower by (simp del: set_simps list.set)
  have len: "length (upper l) = length l" by (simp add: upper_def)
  show ?thesis
    using update_history_fire [of h l sock out] up len
    by (auto simp add: send_unity_alert_def)
qed

theorem alert_message_and_send_failure_witness:
  "update_history (\<lambda>m. Inl (Raised ''Network is unreachable'')) ''High'' (replicate 9 ''High'', []) =
     ([], [SendFailed ''ALERT|HIGH'' (Raised ''Network is unreachable'')]) \<and>
   update_history (\<lambda>m. Inr ()) ''High'' (replicate 9 ''High'', []) = ([], [Sent ''ALERT|HIGH'']) \<and>
   upper ''High'' = ''HIGH''"
proof -
  have d: "deque_append 10 (replicate 9 ''High'') ''High'' = replicate 10 ''High''"
    by (simp add: deque_append_def eval_nat_numeral)
  have u: "upper ''High'' = ''HIGH''" by (simp add: upper_def upper_char_def)
  show ?thesis
    using alert_message_and_send_failure
      [of "replicate 9 ''High''" "''High''" "\<lambda>m. Inl (Raised ''Network is unreachable'')" "[]"]
      alert_message_and_send_failure
      [of "replicate 9 ''High''" "''High''" "\<lambda>m. Inr ()" "[]"]
    by (simp add: d u)
qed

section \<open>Peaks, troughs and the amplitude\<close>

lemma skip_plateau_le:
  "i_ahead \<le> length x - 1 \<Longrightarrow> skip_plateau x i i_ahead \<le> length x - 1"
proof (induction x i i_ahead rule: skip_plateau.induct)
  case (1 x i i_ahead)
  show ?case
  proof (cases "i_ahead < length x - 1 \<and> x ! i_ahead = x ! i")
    case True
    with 1 have "skip_plateau x i (i_ahead + 1) \<le> length x - 1" by simp
    with True show ?thesis by (subst skip_plateau.simps) simp
  next
    case False
    with 1 show ?thesis by (subst skip_plateau.simps) auto
  qed
qed

lemma skip_plateau_flat:
  "i_ahead \<le> j \<Longrightarrow> j < skip_plateau x i i_ahead \<Longrightarrow> x ! j = x ! i"
proof (induction x i i_ahead rule: skip_plateau.induct)
  case (1 x i i_ahead)
  show ?case
  proof (cases "i_ahead < length x - 1 \<and> x ! i_ahead = x ! i")
    case True
    then have eq: "skip_plateau x i i_ahead = skip_plateau x i (i_ahead + 1)"
      by (subst skip_plateau.simps) simp
    show ?thesis
    proof (cases "j = i_ahead")
      case True
      with \<open>i_ahead < length x - 1 \<and> x ! i_ahead = x ! i\<close> show ?thesis by simp
    next
      case False
      with 1 True eq show ?thesis by simp
    qed
  next
    case False
    then have "skip_plateau x i i_ahead = i_ahead"
      by (subst skip_plateau.simps) auto
    with 1 show ?thesis by simp
  qed
qed

lemma skip_plateau_stop: "x ! i_ahead \<noteq> x ! i \<Longrightarrow> skip_plateau x i i_ahead = i_ahead"
  by (subst skip_plateau.simps) simp

text \<open>The three ways one round of the outer loop can go.\<close>

lemma loop_peak:
  "i < length x - 1 \<Longrightarrow> x ! (i - 1) < x ! i \<Longrightarrow> x ! (skip_plateau x i (i + 1)) < x ! i \<Longrightarrow>
   local_maxima_loop x i acc =
     local_maxima_loop x (skip_plateau x i (i + 1) + 1)
       (acc @ [(i + (skip_plateau x i (i + 1) - 1)) div 2])"
  by (subst local_maxima_loop.simps) simp

lemma loop_next:
  "i < length x - 1 \<Longrightarrow>
   \<not> (x ! (i - 1) < x ! i \<and> x ! (skip_plateau x i (i + 1)) < x ! i) \<Longrightarrow>
   local_maxima_loop x i acc = local_maxima_loop x (i + 1) acc"
  by (subst local_maxima_loop.simps) auto

lemma loop_done: "\<not> i < length x - 1 \<Longrightarrow> local_maxima_loop x i acc = acc"
  by (subst local_maxima_loop.simps) simp

lemma loop_keeps_acc: "set acc \<subseteq> set (local_maxima_loop x i acc)"
proof (induction x i acc rule: local_maxima_loop.induct)
  case (1 x i midpoints)
  let ?a = "skip_plateau x i (i + 1)"
  show ?case
  proof (cases "i < length x - 1")
    case inr: True
    show ?thesis
    proof (cases "x ! (i - 1) < x ! i")
      case rise: True
      show ?thesis
      proof (cases "x ! ?a < x ! i")
        case fall: True
        from "1.IH"(1)[OF inr rise fall] loop_peak[OF inr rise fall, of midpoints]
        show ?thesis by simp
      next
        case nofall: False
        from "1.IH"(2)[OF inr rise nofall] loop_next[OF inr, of midpoints] nofall
        show ?thesis by simp
      qed
    next
      case norise: False
      from "1.IH"(3)[OF inr norise] loop_next[OF inr, of midpoints] norise
      show ?thesis by simp
    qed
  next
    case False
    then show ?thesis by (simp add: loop_done)
  qed
qed

lemma loop_finds_strict_max:
  "strict_local_max x k \<Longrightarrow> 0 < i \<Longrightarrow> i \<le> k \<Longrightarrow> k \<in> set (local_maxima_loop x i acc)"
proof (induction x i acc rule: local_maxima_loop.induct)
  case (1 x i midpoints)
  let ?a = "skip_plateau x i (i + 1)"
  from "1.prems" have k: "0 < k" "k + 1 < length x" "x ! (k - 1) < x ! k" "x ! (k + 1) < x ! k"
    by (simp_all add: strict_local_max_def)
  from k "1.prems" have iltn: "i < length x - 1" by simp
  show ?case
  proof (cases "x ! (i - 1) < x ! i")
    case rise: True
    show ?thesis
    proof (cases "x ! ?a < x ! i")
      case fall: True
      note unfold = loop_peak[OF iltn rise fall, of midpoints]
      show ?thesis
      proof (cases "i = k")
        case True
        with k have "?a = k + 1" by (simp add: skip_plateau_stop)
        with True have "(i + (?a - 1)) div 2 = k" by simp
        then have "k \<in> set (midpoints @ [(i + (?a - 1)) div 2])" by simp
        with loop_keeps_acc[of "midpoints @ [(i + (?a - 1)) div 2]" x "?a + 1"] unfold
        show ?thesis by auto
      next
        case False
        with "1.prems" have ik: "i < k" by simp
        have "?a < k"
        proof (rule ccontr)
          assume "\<not> ?a < k"
          then have ka: "k \<le> ?a" by simp
          have prev: "x ! (k - 1) = x ! i"
          proof (cases "k - 1 = i")
            case True then show ?thesis by simp
          next
            case False
            with ik have "i + 1 \<le> k - 1" by simp
            moreover from ka k have "k - 1 < ?a" by simp
            ultimately show ?thesis by (rule skip_plateau_flat)
          qed
          show False
          proof (cases "k = ?a")
            case True
            with fall prev k show False by simp
          next
            case False
            with ka have "k < ?a" by simp
            with ik have "x ! k = x ! i" by (intro skip_plateau_flat) simp_all
            with prev k show False by simp
          qed
        qed
        then have "?a + 1 \<le> k" by simp
        with "1.IH"(1)[OF iltn rise fall "1.prems"(1)] unfold show ?thesis by simp
      qed
    next
      case nofall: False
      from nofall have unfold: "local_maxima_loop x i midpoints = local_maxima_loop x (i + 1) midpoints"
        by (intro loop_next[OF iltn]) simp
      have "i \<noteq> k"
      proof
        assume "i = k"
        with k have "?a = k + 1" by (simp add: skip_plateau_stop)
        with nofall \<open>i = k\<close> k show False by simp
      qed
      with "1.prems" have "i + 1 \<le> k" by simp
      with "1.IH"(2)[OF iltn rise nofall "1.prems"(1)] unfold show ?thesis by simp
    qed
  next
    case norise: False
    from norise have unfold: "local_maxima_loop x i midpoints = local_maxima_loop x (i + 1) midpoints"
      by (intro loop_next[OF iltn]) simp
    from norise k have "i \<noteq> k" by auto
    with "1.prems" have "i + 1 \<le> k" by simp
    with "1.IH"(3)[OF iltn norise "1.prems"(1)] unfold show ?thesis by simp
  qed
qed

lemma find_peaks_complete: "strict_local_max x k \<Longrightarrow> k \<in> set (find_peaks x)"
  unfolding find_peaks_def
  by (rule loop_finds_strict_max) (simp_all add: strict_local_max_def)

lemma strict_local_min_uminus:
  "strict_local_min x k \<Longrightarrow> strict_local_max (map uminus x) k"
proof -
  assume m: "strict_local_min x k"
  then have k: "0 < k" "k + 1 < length x" by (simp_all add: strict_local_min_def)
  then have "k - 1 < length x" "k < length x" by simp_all
  with k m show ?thesis
    by (simp add: strict_local_min_def strict_local_max_def)
qed

lemma loop_sorted:
  "sorted_wrt (<) acc \<Longrightarrow> \<forall>p\<in>set acc. p < i \<Longrightarrow> sorted_wrt (<) (local_maxima_loop x i acc)"
proof (induction x i acc rule: local_maxima_loop.induct)
  case (1 x i midpoints)
  let ?a = "skip_plateau x i (i + 1)"
  show ?case
  proof (cases "i < length x - 1")
    case inr: True
    show ?thesis
    proof (cases "x ! (i - 1) < x ! i \<and> x ! ?a < x ! i")
      case True
      then have rise: "x ! (i - 1) < x ! i" and fall: "x ! ?a < x ! i" by simp_all
      have age: "i + 1 \<le> ?a" by (rule skip_plateau_ge)
      let ?m = "(i + (?a - 1)) div 2"
      from age have m: "i \<le> ?m" "?m < ?a + 1" by simp_all
      from "1.prems" m have s: "sorted_wrt (<) (midpoints @ [?m])"
        by (auto simp add: sorted_wrt_append)
      from "1.prems" m have b: "\<forall>p\<in>set (midpoints @ [?m]). p < ?a + 1" by auto
      from "1.IH"(1)[OF inr rise fall s b] loop_peak[OF inr rise fall, of midpoints]
      show ?thesis by simp
    next
      case False
      then have unfold: "local_maxima_loop x i midpoints = local_maxima_loop x (i + 1) midpoints"
        by (rule loop_next[OF inr])
      from "1.prems" have b: "\<forall>p\<in>set midpoints. p < i + 1" by auto
      show ?thesis
      proof (cases "x ! (i - 1) < x ! i")
        case rise: True
        with False have nofall: "\<not> x ! ?a < x ! i" by simp
        from "1.IH"(2)[OF inr rise nofall "1.prems"(1) b] unfold show ?thesis by simp
      next
        case norise: False
        from "1.IH"(3)[OF inr norise "1.prems"(1) b] unfold show ?thesis by simp
      qed
    qed
  next
    case False
    with "1.prems" show ?thesis by (simp add: loop_done)
  qed
qed

lemma find_peaks_sorted: "sorted_wrt (<) (find_peaks x)"
  unfolding find_peaks_def by (rule loop_sorted) simp_all

lemma find_peaks_le_last: "p \<in> set (find_peaks x) \<Longrightarrow> p \<le> last (find_peaks x)"
proof -
  assume p: "p \<in> set (find_peaks x)"
  have "sorted (find_peaks x)"
    using find_peaks_sorted [of x] by (simp add: strict_sorted_iff)
  moreover from p obtain n where n: "n < length (find_peaks x)" "find_peaks x ! n = p"
    by (auto simp add: in_set_conv_nth)
  ultimately have "find_peaks x ! n \<le> find_peaks x ! (length (find_peaks x) - 1)"
    by (intro sorted_nth_mono) simp_all
  moreover from n have "find_peaks x \<noteq> []" by auto
  ultimately show ?thesis using n by (simp add: last_conv_nth)
qed

lemma loop_no_rise:
  "\<forall>j. 0 < j \<and> j < length x \<longrightarrow> \<not> x ! (j - 1) < x ! j \<Longrightarrow> 0 < i \<Longrightarrow>
   local_maxima_loop x i acc = acc"
proof (induction x i acc rule: local_maxima_loop.induct)
  case (1 x i midpoints)
  show ?case
  proof (cases "i < length x - 1")
    case inr: True
    with "1.prems" have norise: "\<not> x ! (i - 1) < x ! i" by simp
    then have "local_maxima_loop x i midpoints = local_maxima_loop x (i + 1) midpoints"
      by (intro loop_next[OF inr]) simp
    with "1.IH"(3)[OF inr norise "1.prems"(1)] show ?thesis by simp
  next
    case False
    then show ?thesis by (simp add: loop_done)
  qed
qed

lemma loop_no_fall:
  "\<forall>j k. j < k \<and> k < length x \<longrightarrow> \<not> x ! k < x ! j \<Longrightarrow>
   local_maxima_loop x i acc = acc"
proof (induction x i acc rule: local_maxima_loop.induct)
  case (1 x i midpoints)
  let ?a = "skip_plateau x i (i + 1)"
  show ?case
  proof (cases "i < length x - 1")
    case inr: True
    have "i + 1 \<le> ?a" by (rule skip_plateau_ge)
    moreover from inr have "?a \<le> length x - 1" by (intro skip_plateau_le) simp
    ultimately have "i < ?a \<and> ?a < length x" using inr by simp
    with "1.prems" have nofall: "\<not> x ! ?a < x ! i" by blast
    then have unfold: "local_maxima_loop x i midpoints = local_maxima_loop x (i + 1) midpoints"
      by (intro loop_next[OF inr]) simp
    show ?thesis
    proof (cases "x ! (i - 1) < x ! i")
      case rise: True
      from "1.IH"(2)[OF inr rise nofall "1.prems"] unfold show ?thesis by simp
    next
      case norise: False
      from "1.IH"(3)[OF inr norise "1.prems"] unfold show ?thesis by simp
    qed
  next
    case False
    then show ?thesis by (simp add: loop_done)
  qed
qed

lemma find_peaks_increasing: "sorted_wrt (<) x \<Longrightarrow> find_peaks x = []"
  unfolding find_peaks_def
  by (rule loop_no_fall) (auto simp add: sorted_wrt_iff_nth_less dest: less_imp_not_less)

lemma find_peaks_decreasing: "sorted_wrt (>) x \<Longrightarrow> find_peaks x = []"
  unfolding find_peaks_def
proof (rule loop_no_rise)
  assume d: "sorted_wrt (>) x"
  show "\<forall>j. 0 < j \<and> j < length x \<longrightarrow> \<not> x ! (j - 1) < x ! j"
  proof (intro allI impI)
    fix j assume j: "0 < j \<and> j < length x"
    then have "j - 1 < j" by simp
    with d j have "x ! (j - 1) > x ! j" by (simp add: sorted_wrt_iff_nth_less)
    then show "\<not> x ! (j - 1) < x ! j" by simp
  qed
qed simp

lemma uminus_increasing: "sorted_wrt (<) (x :: real list) \<Longrightarrow> sorted_wrt (>) (map uminus x)"
  by (simp add: sorted_wrt_map)

lemma uminus_decreasing: "sorted_wrt (>) (x :: real list) \<Longrightarrow> sorted_wrt (<) (map uminus x)"
  by (simp add: sorted_wrt_map)


lemma find_peaks_example: "find_peaks ppg_example = [1, 3, 5, 7]"
  unfolding ppg_example_def by code_simp

lemma find_troughs_example: "find_peaks (map uminus ppg_example) = [2, 4, 6, 8]"
  unfolding ppg_example_def by code_simp

lemma compute_bva_example: "compute_bva ppg_example = Some 4"
  by (simp add: compute_bva_def find_peaks_example find_troughs_example Let_def)
     (simp add: ppg_example_def)

text \<open>
  Claim C3. For at least ten samples with a strict local maximum at \<open>i\<close> and a strict
  local minimum at \<open>j\<close>, both are detected (as a peak, and as a peak of the negated
  samples), the last entry of each detected list is its highest index, and the result is
  the absolute difference of the sample at the last peak and the sample at the last trough.
  On the samples 1, 5, 2, 8, 3, 9, 1, 6, 2, 7 the peaks are at 1, 3, 5, 7 and the troughs
  at 2, 4, 6, 8, and the result is the difference of the samples at 7 and at 8, which is
  not the difference of the greatest peak and the least trough.
\<close>

theorem compute_bva_last_peak_last_trough:
  "(10 \<le> length xs \<and> strict_local_max xs i \<and> strict_local_min xs j \<longrightarrow>
      i \<in> set (find_peaks xs) \<and> j \<in> set (find_peaks (map uminus xs)) \<and>
      (\<forall>p\<in>set (find_peaks xs). p \<le> last (find_peaks xs)) \<and>
      (\<forall>t\<in>set (find_peaks (map uminus xs)). t \<le> last (find_peaks (map uminus xs))) \<and>
      compute_bva xs =
        Some \<bar>xs ! last (find_peaks xs) - xs ! last (find_peaks (map uminus xs))\<bar>) \<and>
   find_peaks ppg_example = [1, 3, 5, 7] \<and>
   find_peaks (map uminus ppg_example) = [2, 4, 6, 8] \<and>
   compute_bva ppg_example = Some \<bar>ppg_example ! 7 - ppg_example ! 8\<bar> \<and>
   compute_bva ppg_example \<noteq>
     Some \<bar>Max (set (map ((!) ppg_example) (find_peaks ppg_example))) -
           Min (set (map ((!) ppg_example) (find_peaks (map uminus ppg_example))))\<bar>"
proof -
  have general:
    "i \<in> set (find_peaks xs) \<and> j \<in> set (find_peaks (map uminus xs)) \<and>
      (\<forall>p\<in>set (find_peaks xs). p \<le> last (find_peaks xs)) \<and>
      (\<forall>t\<in>set (find_peaks (map uminus xs)). t \<le> last (find_peaks (map uminus xs))) \<and>
      compute_bva xs =
        Some \<bar>xs ! last (find_peaks xs) - xs ! last (find_peaks (map uminus xs))\<bar>"
    if len: "10 \<le> length xs" and mx: "strict_local_max xs i" and mn: "strict_local_min xs j"
  proof -
    from mx have pk: "i \<in> set (find_peaks xs)" by (rule find_peaks_complete)
    from mn have tr: "j \<in> set (find_peaks (map uminus xs))"
      by (intro find_peaks_complete strict_local_min_uminus)
    from pk have ne1: "length (find_peaks xs) \<noteq> 0" by auto
    from tr have ne2: "length (find_peaks (map uminus xs)) \<noteq> 0" by auto
    from len ne1 ne2 have "compute_bva xs =
        Some \<bar>xs ! last (find_peaks xs) - xs ! last (find_peaks (map uminus xs))\<bar>"
      by (simp add: compute_bva_def Let_def)
    with pk tr show ?thesis by (simp add: find_peaks_le_last)
  qed
  have ex1: "compute_bva ppg_example = Some \<bar>ppg_example ! 7 - ppg_example ! 8\<bar>"
    by (simp add: compute_bva_example) (simp add: ppg_example_def)
  have ex2: "compute_bva ppg_example \<noteq>
     Some \<bar>Max (set (map ((!) ppg_example) (find_peaks ppg_example))) -
           Min (set (map ((!) ppg_example) (find_peaks (map uminus ppg_example))))\<bar>"
    by (simp add: compute_bva_example find_peaks_example find_troughs_example)
       (simp add: ppg_example_def)
  from general ex1 ex2 show ?thesis
    by (simp only: find_peaks_example find_troughs_example) blast
qed

theorem compute_bva_last_peak_last_trough_witness:
  "10 \<le> length ppg_example \<and> strict_local_max ppg_example 5 \<and> strict_local_min ppg_example 6 \<and>
   5 \<in> set (find_peaks ppg_example) \<and> 6 \<in> set (find_peaks (map uminus ppg_example)) \<and>
   last (find_peaks ppg_example) = 7 \<and> last (find_peaks (map uminus ppg_example)) = 8 \<and>
   ppg_example ! 7 = 6 \<and> ppg_example ! 8 = 2 \<and>
   map ((!) ppg_example) (find_peaks ppg_example) = [5, 8, 9, 6] \<and>
   map ((!) ppg_example) (find_peaks (map uminus ppg_example)) = [2, 3, 1, 2] \<and>
   compute_bva ppg_example = Some 4 \<and>
   \<bar>Max (set (map ((!) ppg_example) (find_peaks ppg_example))) -
    Min (set (map ((!) ppg_example) (find_peaks (map uminus ppg_example))))\<bar> = 8"
proof -
  have h1: "10 \<le> length ppg_example" by (simp add: ppg_example_def)
  have h2: "strict_local_max ppg_example 5" by (simp add: ppg_example_def strict_local_max_def)
  have h3: "strict_local_min ppg_example 6" by (simp add: ppg_example_def strict_local_min_def)
  have l1: "last (find_peaks ppg_example) = 7" using compute_bva_last_peak_last_trough by simp
  have l2: "last (find_peaks (map uminus ppg_example)) = 8"
    using compute_bva_last_peak_last_trough by simp
  have v: "ppg_example ! 7 = 6" "ppg_example ! 8 = 2" by (simp_all add: ppg_example_def)
  have vs: "map ((!) ppg_example) (find_peaks ppg_example) = [5, 8, 9, 6]"
    "map ((!) ppg_example) (find_peaks (map uminus ppg_example)) = [2, 3, 1, 2]"
    by (simp_all add: find_peaks_example find_troughs_example) (simp_all add: ppg_example_def)
  have m: "\<bar>Max (set (map ((!) ppg_example) (find_peaks ppg_example))) -
    Min (set (map ((!) ppg_example) (find_peaks (map uminus ppg_example))))\<bar> = 8"
    using compute_bva_last_peak_last_trough by (simp add: ppg_example_def)
  from compute_bva_last_peak_last_trough [of ppg_example 5 6] h1 h2 h3
  have "5 \<in> set (find_peaks ppg_example) \<and> 6 \<in> set (find_peaks (map uminus ppg_example)) \<and>
    compute_bva ppg_example =
      Some \<bar>ppg_example ! last (find_peaks ppg_example) -
            ppg_example ! last (find_peaks (map uminus ppg_example))\<bar>"
    by blast
  with h1 h2 h3 l1 l2 v vs m show ?thesis by simp
qed

text \<open>
  Claim C4. \<^const>\<open>compute_bva\<close> is a total function into the optional reals, so it has
  no raising branch. It is \<^term>\<open>None\<close> below ten samples, and whenever no peak or no
  trough is detected; a strictly increasing or strictly decreasing sequence has neither.
\<close>

theorem compute_bva_undefined:
  "(length xs < 10 \<longrightarrow> compute_bva xs = None) \<and>
   (find_peaks xs = [] \<or> find_peaks (map uminus xs) = [] \<longrightarrow> compute_bva xs = None) \<and>
   (sorted_wrt (<) xs \<or> sorted_wrt (>) xs \<longrightarrow>
      find_peaks xs = [] \<and> find_peaks (map uminus xs) = [] \<and> compute_bva xs = None)"
proof -
  have short: "length xs < 10 \<longrightarrow> compute_bva xs = None"
    by (simp add: compute_bva_def)
  have empty: "find_peaks xs = [] \<or> find_peaks (map uminus xs) = [] \<longrightarrow> compute_bva xs = None"
    by (auto simp add: compute_bva_def Let_def)
  have mono: "find_peaks xs = [] \<and> find_peaks (map uminus xs) = []"
    if "sorted_wrt (<) xs \<or> sorted_wrt (>) xs"
    using that
  proof
    assume inc: "sorted_wrt (<) xs"
    then have "find_peaks xs = []" by (rule find_peaks_increasing)
    moreover from inc have "find_peaks (map uminus xs) = []"
      by (intro find_peaks_decreasing uminus_increasing)
    ultimately show ?thesis by simp
  next
    assume dec: "sorted_wrt (>) xs"
    then have "find_peaks xs = []" by (rule find_peaks_decreasing)
    moreover from dec have "find_peaks (map uminus xs) = []"
      by (intro find_peaks_increasing uminus_decreasing)
    ultimately show ?thesis by simp
  qed
  from short empty mono show ?thesis by blast
qed

theorem compute_bva_undefined_witness:
  "compute_bva [1, 5, 2, 8, 3, 9, 1, 6, 2] = None \<and>
   find_peaks [1, 2, 3, 4, 5, 6, 7, 8, 9, 10, 11, 12] = [] \<and>
   compute_bva [1, 2, 3, 4, 5, 6, 7, 8, 9, 10, 11, 12] = None \<and>
   compute_bva [12, 11, 10, 9, 8, 7, 6, 5, 4, 3, 2, 1] = None"
proof -
  have a: "compute_bva [1, 5, 2, 8, 3, 9, 1, 6, 2] = None"
    using compute_bva_undefined [of "[1, 5, 2, 8, 3, 9, 1, 6, 2]"] by simp
  have i: "sorted_wrt (<) [1, 2, 3, 4, 5, 6, 7, 8, 9, 10, 11, 12 :: real]" by simp
  have d: "sorted_wrt (>) [12, 11, 10, 9, 8, 7, 6, 5, 4, 3, 2, 1 :: real]" by simp
  from i have b: "find_peaks [1, 2, 3, 4, 5, 6, 7, 8, 9, 10, 11, 12] = [] \<and>
      compute_bva [1, 2, 3, 4, 5, 6, 7, 8, 9, 10, 11, 12] = None"
    using compute_bva_undefined [of "[1, 2, 3, 4, 5, 6, 7, 8, 9, 10, 11, 12]"] by blast
  from d have c: "compute_bva [12, 11, 10, 9, 8, 7, 6, 5, 4, 3, 2, 1] = None"
    using compute_bva_undefined [of "[12, 11, 10, 9, 8, 7, 6, 5, 4, 3, 2, 1]"] by blast
  from a b c show ?thesis by simp
qed

section \<open>One pass of the aggregation loop\<close>

lemma minmax_single: "minmax_fit_transform [v] = Inr [0]"
  by (simp add: minmax_fit_transform_def handle_zeros_in_scale_def float_eps_def Let_def)

lemma scale_bva_Some: "scale_bva (Some v) = Inr (Some 0)"
  by (simp add: scale_bva_def minmax_single first_item_def)

lemma scale_bva_eq: "scale_bva bva = Inr (map_option (\<lambda>v. 0) bva)"
  by (cases bva) (simp_all add: scale_bva_def minmax_single first_item_def)

lemma aggregate_channels_row:
  "distinct keys \<Longrightarrow>
   fst (aggregate_channels keys r b) k =
     (if k \<in> set keys \<and> k \<noteq> ''BVA'' then Some (mean_or_missing (b k)) else r k)"
proof (induction keys arbitrary: r b k)
  case Nil
  then show ?case by simp
next
  case (Cons key keys)
  then have d: "distinct keys" and nk: "key \<notin> set keys" by simp_all
  note IH = Cons.IH[OF d]
  show ?case
  proof (cases "key = ''BVA''")
    case True
    then show ?thesis by (simp add: IH)
  next
    case False
    then show ?thesis using nk by (auto simp add: IH mean_or_missing_def)
  qed
qed

lemma aggregate_channels_buffers:
  "snd (aggregate_channels keys r b) k =
     (if k \<in> set keys \<and> k \<noteq> ''BVA'' then [] else b k)"
proof (induction keys arbitrary: r b k)
  case Nil
  then show ?case by simp
next
  case (Cons key keys)
  show ?case
  proof (cases "key = ''BVA''")
    case True
    then show ?thesis by (simp add: Cons.IH)
  next
    case False
    then show ?thesis by (auto simp add: Cons.IH)
  qed
qed

lemma distinct_channels: "distinct (tl fieldnames)"
  by (simp add: fieldnames_def)

lemma EDA_channel: "''EDA'' \<in> set (tl fieldnames)"
  by (simp add: fieldnames_def)

lemma T1_channel: "''T1'' \<in> set (tl fieldnames)"
  by (simp add: fieldnames_def)

lemma timestamp_no_channel: "''timestamp'' \<notin> set (tl fieldnames)"
  by (simp add: fieldnames_def)

text \<open>
  The row and the buffers one pass leaves, as functions of the buffers it found.
\<close>

definition pass_row :: "real \<Rightarrow> buffers \<Rightarrow> row" where
  "pass_row ts b =
     fst (aggregate_channels (tl fieldnames)
            ([''timestamp'' \<mapsto> Some ts, ''BVA'' \<mapsto> compute_bva (b ''PPG:IR'')]) b)"

definition pass_buffers :: "buffers \<Rightarrow> buffers" where
  "pass_buffers b = (\<lambda>k. if (k \<in> set (tl fieldnames) \<and> k \<noteq> ''BVA'') \<or> k = ''PPG:IR'' then [] else b k)"

lemma pass_row_channel:
  "k \<in> set (tl fieldnames) \<Longrightarrow> k \<noteq> ''BVA'' \<Longrightarrow> pass_row ts b k = Some (mean_or_missing (b k))"
  by (simp add: pass_row_def aggregate_channels_row distinct_channels)

lemma pass_row_BVA: "pass_row ts b ''BVA'' = Some (compute_bva (b ''PPG:IR''))"
  by (simp add: pass_row_def aggregate_channels_row distinct_channels)

lemma pass_row_timestamp: "pass_row ts b ''timestamp'' = Some (Some ts)"
  by (simp add: pass_row_def aggregate_channels_row distinct_channels timestamp_no_channel)

lemma pass_eq:
  "aggregate_and_save_pass ml sock ts s =
     Inr (save_and_alert ml sock ts (pass_row ts (data_buffer s))
            (mean_or_missing (data_buffer s ''EDA'')) (mean_or_missing (data_buffer s ''T1''))
            (map_option (\<lambda>v. 0) (compute_bva (data_buffer s ''PPG:IR'')))
            (s\<lparr>data_buffer := pass_buffers (data_buffer s)\<rparr>))"
proof -
  let ?b = "data_buffer s"
  let ?r0 = "[''timestamp'' \<mapsto> Some ts, ''BVA'' \<mapsto> compute_bva (?b ''PPG:IR'')]"
  let ?agg = "aggregate_channels (tl fieldnames) ?r0 ?b"
  have row: "fst ?agg = pass_row ts ?b" by (simp add: pass_row_def)
  have buf: "(snd ?agg)(''PPG:IR'' := []) = pass_buffers ?b"
    by (rule ext) (auto simp add: pass_buffers_def aggregate_channels_buffers)
  have eda: "row_get (pass_row ts ?b) ''EDA'' = Inr (mean_or_missing (?b ''EDA''))"
    by (simp add: row_get_def pass_row_channel EDA_channel)
  have t1: "row_get (pass_row ts ?b) ''T1'' = Inr (mean_or_missing (?b ''T1''))"
    by (simp add: row_get_def pass_row_channel T1_channel)
  show ?thesis
    unfolding aggregate_and_save_pass_def Let_def scale_bva_eq case_prod_beta
    by (simp only: row buf eda t1 sum.case)
qed

lemma save_and_alert_full:
  "save_and_alert ml sock ts r (Some e) (Some t) (Some b) s =
     s\<lparr>csv_file := csv_file s @ [r],
       cogload_file := cogload_file s @ [(e, t, b)],
       prediction_file := prediction_file s @ [(ts, e, t, b, predict_cognitive_load ml e t b)],
       last_predictions :=
         fst (update_history sock (predict_cognitive_load ml e t b) (last_predictions s, unity_log s)),
       unity_log :=
         snd (update_history sock (predict_cognitive_load ml e t b) (last_predictions s, unity_log s))\<rparr>"
  by (simp add: save_and_alert_def Let_def case_prod_beta)

lemma save_and_alert_missing:
  "eda = None \<or> temp = None \<or> bva = None \<Longrightarrow>
   save_and_alert ml sock ts r eda temp bva s = s\<lparr>csv_file := csv_file s @ [r]\<rparr>"
  by (auto simp add: save_and_alert_def Let_def split: option.splits)

lemma received_full_pass:
  "receive (messages full_pass) (\<lambda>channel. []) =
     (\<lambda>channel. [])(''EDA'' := [1 / 2], ''T1'' := [30], ''PPG:IR'' := ppg_example)"
  by (simp add: full_pass_def ppg_messages_def ppg_example_def generic_handler_def
        split_last_def deque_append_def)

section \<open>The classifier adapter\<close>

text \<open>
  Claim C6. \<^const>\<open>predict_cognitive_load\<close> returns a label for every input; its only
  raising steps stand inside \<^const>\<open>scoring\<close>, whose exceptions it turns into a label.
  When one of the four collaborators is unset, and so whenever one of the four loads
  failed at startup, the result is \<open>MODEL_NOT_LOADED\<close> and \<^const>\<open>scoring\<close> is not
  consulted. When all four are set and scoring raises, the result is
  \<open>PREDICTION_ERROR\<close>; otherwise it is the decoded label.
\<close>

theorem predict_sentinels:
  "(clf ml = None \<or> std_scaler ml = None \<or> bva_scaler ml = None \<or> label_encoder ml = None \<longrightarrow>
      predict_cognitive_load ml eda temp bva = ''MODEL_NOT_LOADED'') \<and>
   (isl load_clf \<or> isl load_std \<or> isl load_bva \<or> isl load_enc \<longrightarrow>
      predict_cognitive_load (load_ml_components load_clf load_std load_bva load_enc frame)
        eda temp bva = ''MODEL_NOT_LOADED'') \<and>
   (clf ml = Some c \<and> std_scaler ml = Some sc \<and> bva_scaler ml = Some b \<and>
    label_encoder ml = Some enc \<longrightarrow>
      (\<forall>exn. scoring (pandas_frame ml) c sc b enc eda temp bva = Inl exn \<longrightarrow>
         predict_cognitive_load ml eda temp bva = ''PREDICTION_ERROR'') \<and>
      (\<forall>label. scoring (pandas_frame ml) c sc b enc eda temp bva = Inr label \<longrightarrow>
         predict_cognitive_load ml eda temp bva = label))"
proof -
  have a: "clf ml = None \<or> std_scaler ml = None \<or> bva_scaler ml = None \<or> label_encoder ml = None \<longrightarrow>
      predict_cognitive_load ml eda temp bva = ''MODEL_NOT_LOADED''"
    by (simp add: predict_cognitive_load_def)
  have b: "isl load_clf \<or> isl load_std \<or> isl load_bva \<or> isl load_enc \<longrightarrow>
      predict_cognitive_load (load_ml_components load_clf load_std load_bva load_enc frame)
        eda temp bva = ''MODEL_NOT_LOADED''"
    by (cases load_clf; cases load_std; cases load_bva; cases load_enc)
       (simp_all add: predict_cognitive_load_def load_ml_components_def)
  have c: "clf ml = Some c \<and> std_scaler ml = Some sc \<and> bva_scaler ml = Some b \<and>
    label_encoder ml = Some enc \<longrightarrow>
      (\<forall>exn. scoring (pandas_frame ml) c sc b enc eda temp bva = Inl exn \<longrightarrow>
         predict_cognitive_load ml eda temp bva = ''PREDICTION_ERROR'') \<and>
      (\<forall>label. scoring (pandas_frame ml) c sc b enc eda temp bva = Inr label \<longrightarrow>
         predict_cognitive_load ml eda temp bva = label)"
    by (simp add: predict_cognitive_load_def)
  from a b c show ?thesis by blast
qed

theorem predict_sentinels_witness:
  "predict_cognitive_load not_loaded (1 / 2) 30 0 = ''MODEL_NOT_LOADED'' \<and>
   predict_cognitive_load
     \<lparr>clf = Some (\<lambda>x. Inr 1), std_scaler = Some Inr,
      bva_scaler = Some (\<lambda>x. Inl (Raised ''X has 1 features, but MinMaxScaler is expecting 3'')),
      label_encoder = Some (\<lambda>n. Inr ''High''), pandas_frame = Inr\<rparr> (1 / 2) 30 0 =
     ''PREDICTION_ERROR'' \<and>
   predict_cognitive_load
     \<lparr>clf = Some (\<lambda>x. Inr 1), std_scaler = Some Inr, bva_scaler = Some Inr,
      label_encoder = Some (\<lambda>n. Inr ''High''), pandas_frame = Inr\<rparr> (1 / 2) 30 0 = ''High''"
proof -
  let ?bad = "\<lparr>clf = Some (\<lambda>x. Inr 1), std_scaler = Some Inr,
      bva_scaler = Some (\<lambda>x. Inl (Raised ''X has 1 features, but MinMaxScaler is expecting 3'')),
      label_encoder = Some (\<lambda>n. Inr ''High''), pandas_frame = Inr\<rparr>"
  let ?good = "\<lparr>clf = Some (\<lambda>x. Inr 1), std_scaler = Some Inr, bva_scaler = Some Inr,
      label_encoder = Some (\<lambda>n. Inr ''High''), pandas_frame = Inr\<rparr>"
  have "predict_cognitive_load not_loaded (1 / 2) 30 0 = ''MODEL_NOT_LOADED''"
    unfolding not_loaded_def
    using predict_sentinels [where load_clf = "Inl (Raised ''No such file or directory'')"]
    by simp
  moreover have "predict_cognitive_load ?bad (1 / 2) 30 0 = ''PREDICTION_ERROR''"
    using predict_sentinels [where ml = ?bad and c = "\<lambda>x. Inr 1" and sc = Inr
        and b = "\<lambda>x. Inl (Raised ''X has 1 features, but MinMaxScaler is expecting 3'')"
        and enc = "\<lambda>n. Inr ''High''" and eda = "1 / 2" and temp = 30 and bva = 0]
    by (simp add: scoring_def)
  moreover have "predict_cognitive_load ?good (1 / 2) 30 0 = ''High''"
    using predict_sentinels [where ml = ?good and c = "\<lambda>x. Inr 1" and sc = Inr
        and b = Inr and enc = "\<lambda>n. Inr ''High''" and eda = "1 / 2" and temp = 30 and bva = 0]
    by (simp add: scoring_def)
  ultimately show ?thesis by blast
qed

lemma full_state_buffers:
  "data_buffer full_state =
     (\<lambda>channel. [])(''EDA'' := [1 / 2], ''T1'' := [30], ''PPG:IR'' := ppg_example)"
  by (simp add: full_state_def initial_state_def received_full_pass)

lemma full_state_files:
  "csv_file full_state = []" "cogload_file full_state = []" "prediction_file full_state = []"
  "last_predictions full_state = []" "unity_log full_state = []"
  by (simp_all add: full_state_def initial_state_def)

lemma pass_missing:
  "data_buffer s ''EDA'' = [] \<or> data_buffer s ''T1'' = [] \<or>
   compute_bva (data_buffer s ''PPG:IR'') = None \<Longrightarrow>
   aggregate_and_save_pass ml sock ts s =
     Inr (s\<lparr>data_buffer := pass_buffers (data_buffer s),
            csv_file := csv_file s @ [pass_row ts (data_buffer s)]\<rparr>)"
  unfolding pass_eq
  by (subst save_and_alert_missing) (auto simp add: mean_or_missing_def)

lemma pass_full:
  "data_buffer s ''EDA'' \<noteq> [] \<Longrightarrow> data_buffer s ''T1'' \<noteq> [] \<Longrightarrow>
   compute_bva (data_buffer s ''PPG:IR'') = Some v \<Longrightarrow>
   e = sum_list (data_buffer s ''EDA'') / real (length (data_buffer s ''EDA'')) \<Longrightarrow>
   t = sum_list (data_buffer s ''T1'') / real (length (data_buffer s ''T1'')) \<Longrightarrow>
   aggregate_and_save_pass ml sock ts s =
     Inr (s\<lparr>data_buffer := pass_buffers (data_buffer s),
            csv_file := csv_file s @ [pass_row ts (data_buffer s)],
            cogload_file := cogload_file s @ [(e, t, 0)],
            prediction_file :=
              prediction_file s @ [(ts, e, t, 0, predict_cognitive_load ml e t 0)],
            last_predictions :=
              fst (update_history sock (predict_cognitive_load ml e t 0)
                     (last_predictions s, unity_log s)),
            unity_log :=
              snd (update_history sock (predict_cognitive_load ml e t 0)
                     (last_predictions s, unity_log s))\<rparr>)"
  unfolding pass_eq
  by (simp add: mean_or_missing_def save_and_alert_full)

text \<open>
  Claim C5. In a pass where the amplitude is \<open>v\<close>, the rescaled value is 0 whatever \<open>v\<close>
  is (the fit sees the one value \<open>v\<close>, its range is below the threshold and counts as
  1, and \<open>v\<close> is shifted by its own minimum). The pass returns; the row it appends to the
  main file carries \<open>v\<close> itself under \<open>BVA\<close>, and when EDA and T1 have means the
  feature row, the classifier's third argument and the prediction row all carry 0.
\<close>

theorem rescaled_bva_constant:
  "compute_bva (data_buffer s ''PPG:IR'') = Some v \<longrightarrow>
     scale_bva (Some v) = Inr (Some 0) \<and>
     (\<exists>s'. aggregate_and_save_pass ml sock ts s = Inr s' \<and>
        csv_file s' = csv_file s @ [pass_row ts (data_buffer s)] \<and>
        pass_row ts (data_buffer s) ''BVA'' = Some (Some v) \<and>
        (\<forall>e t. mean_or_missing (data_buffer s ''EDA'') = Some e \<and>
               mean_or_missing (data_buffer s ''T1'') = Some t \<longrightarrow>
           cogload_file s' = cogload_file s @ [(e, t, 0)] \<and>
           prediction_file s' =
             prediction_file s @ [(ts, e, t, 0, predict_cognitive_load ml e t 0)]))"
proof
  assume bva: "compute_bva (data_buffer s ''PPG:IR'') = Some v"
  let ?s' = "save_and_alert ml sock ts (pass_row ts (data_buffer s))
            (mean_or_missing (data_buffer s ''EDA'')) (mean_or_missing (data_buffer s ''T1''))
            (Some 0) (s\<lparr>data_buffer := pass_buffers (data_buffer s)\<rparr>)"
  have run: "aggregate_and_save_pass ml sock ts s = Inr ?s'"
    by (simp add: pass_eq bva)
  have csv: "csv_file ?s' = csv_file s @ [pass_row ts (data_buffer s)]"
    by (simp add: save_and_alert_def Let_def case_prod_beta split: option.split)
  have row: "pass_row ts (data_buffer s) ''BVA'' = Some (Some v)"
    by (simp add: pass_row_BVA bva)
  have feat: "cogload_file ?s' = cogload_file s @ [(e, t, 0)] \<and>
           prediction_file ?s' =
             prediction_file s @ [(ts, e, t, 0, predict_cognitive_load ml e t 0)]"
    if "mean_or_missing (data_buffer s ''EDA'') = Some e \<and>
        mean_or_missing (data_buffer s ''T1'') = Some t" for e t
    using that by (simp add: save_and_alert_full)
  from run csv row feat
  show "scale_bva (Some v) = Inr (Some 0) \<and>
     (\<exists>s'. aggregate_and_save_pass ml sock ts s = Inr s' \<and>
        csv_file s' = csv_file s @ [pass_row ts (data_buffer s)] \<and>
        pass_row ts (data_buffer s) ''BVA'' = Some (Some v) \<and>
        (\<forall>e t. mean_or_missing (data_buffer s ''EDA'') = Some e \<and>
               mean_or_missing (data_buffer s ''T1'') = Some t \<longrightarrow>
           cogload_file s' = cogload_file s @ [(e, t, 0)] \<and>
           prediction_file s' =
             prediction_file s @ [(ts, e, t, 0, predict_cognitive_load ml e t 0)]))"
    by (simp add: scale_bva_Some)
qed


lemma full_state_bva: "compute_bva (data_buffer full_state ''PPG:IR'') = Some 4"
  by (simp add: full_state_buffers compute_bva_example)

lemma full_state_means:
  "mean_or_missing (data_buffer full_state ''EDA'') = Some (1 / 2)"
  "mean_or_missing (data_buffer full_state ''T1'') = Some 30"
  "mean_or_missing (data_buffer full_state ''TEMP'') = None"
  by (simp_all add: full_state_buffers mean_or_missing_def)

theorem rescaled_bva_constant_witness:
  "compute_bva (data_buffer full_state ''PPG:IR'') = Some 4 \<and>
   scale_bva (Some 4) = Inr (Some 0) \<and>
   map_sum id cogload_file (aggregate_and_save_pass not_loaded (\<lambda>m. Inr ()) 0 full_state) =
     Inr [(1 / 2, 30, 0)] \<and>
   map_sum id prediction_file (aggregate_and_save_pass not_loaded (\<lambda>m. Inr ()) 0 full_state) =
     Inr [(0, 1 / 2, 30, 0, ''MODEL_NOT_LOADED'')] \<and>
   map_sum id (\<lambda>s. map (\<lambda>r. r ''BVA'') (csv_file s))
     (aggregate_and_save_pass not_loaded (\<lambda>m. Inr ()) 0 full_state) = Inr [Some (Some 4)]"
proof -
  from rescaled_bva_constant [of full_state 4 not_loaded "\<lambda>m. Inr ()" 0] full_state_bva
  obtain s' where s': "aggregate_and_save_pass not_loaded (\<lambda>m. Inr ()) 0 full_state = Inr s'"
    and csv: "csv_file s' = csv_file full_state @ [pass_row 0 (data_buffer full_state)]"
    and row: "pass_row 0 (data_buffer full_state) ''BVA'' = Some (Some 4)"
    and feat: "\<forall>e t. mean_or_missing (data_buffer full_state ''EDA'') = Some e \<and>
               mean_or_missing (data_buffer full_state ''T1'') = Some t \<longrightarrow>
           cogload_file s' = cogload_file full_state @ [(e, t, 0)] \<and>
           prediction_file s' =
             prediction_file full_state @ [(0, e, t, 0, predict_cognitive_load not_loaded e t 0)]"
    and sc: "scale_bva (Some 4) = Inr (Some 0)"
    by blast
  from feat full_state_means have
    "cogload_file s' = [(1 / 2, 30, 0)]"
    "prediction_file s' = [(0, 1 / 2, 30, 0, predict_cognitive_load not_loaded (1 / 2) 30 0)]"
    by (simp_all add: full_state_files)
  moreover have "predict_cognitive_load not_loaded (1 / 2) 30 0 = ''MODEL_NOT_LOADED''"
    by (simp add: predict_cognitive_load_def not_loaded_def load_ml_components_def)
  ultimately show ?thesis
    using s' csv row sc full_state_bva by (simp add: full_state_files)
qed

text \<open>
  Claim C8. For every column of \<^verbatim>\<open>fieldnames[1:]\<close> other than the derived \<open>BVA\<close>,
  the pass returns (no exception), the row it appends holds \<^verbatim>\<open>None\<close> for a channel
  whose buffer is empty and the arithmetic mean of the buffered samples otherwise, and
  the channel's buffer is empty afterwards.
\<close>

theorem missing_channels_are_None:
  "key \<in> set (tl fieldnames) \<and> key \<noteq> ''BVA'' \<longrightarrow>
     (\<exists>s'. aggregate_and_save_pass ml sock ts s = Inr s' \<and>
        csv_file s' = csv_file s @ [pass_row ts (data_buffer s)] \<and>
        data_buffer s' key = [] \<and>
        (data_buffer s key = [] \<longrightarrow> pass_row ts (data_buffer s) key = Some None) \<and>
        (data_buffer s key \<noteq> [] \<longrightarrow>
           pass_row ts (data_buffer s) key =
             Some (Some (sum_list (data_buffer s key) / real (length (data_buffer s key))))))"
proof
  assume key: "key \<in> set (tl fieldnames) \<and> key \<noteq> ''BVA''"
  let ?s' = "save_and_alert ml sock ts (pass_row ts (data_buffer s))
            (mean_or_missing (data_buffer s ''EDA'')) (mean_or_missing (data_buffer s ''T1''))
            (map_option (\<lambda>v. 0) (compute_bva (data_buffer s ''PPG:IR'')))
            (s\<lparr>data_buffer := pass_buffers (data_buffer s)\<rparr>)"
  have run: "aggregate_and_save_pass ml sock ts s = Inr ?s'" by (rule pass_eq)
  have csv: "csv_file ?s' = csv_file s @ [pass_row ts (data_buffer s)]"
    by (simp add: save_and_alert_def Let_def case_prod_beta split: option.split)
  have "data_buffer ?s' = pass_buffers (data_buffer s)"
    by (simp add: save_and_alert_def Let_def case_prod_beta split: option.split)
  with key have buf: "data_buffer ?s' key = []" by (simp add: pass_buffers_def)
  from key have row: "pass_row ts (data_buffer s) key = Some (mean_or_missing (data_buffer s key))"
    by (simp add: pass_row_channel)
  from run csv buf row
  show "\<exists>s'. aggregate_and_save_pass ml sock ts s = Inr s' \<and>
        csv_file s' = csv_file s @ [pass_row ts (data_buffer s)] \<and>
        data_buffer s' key = [] \<and>
        (data_buffer s key = [] \<longrightarrow> pass_row ts (data_buffer s) key = Some None) \<and>
        (data_buffer s key \<noteq> [] \<longrightarrow>
           pass_row ts (data_buffer s) key =
             Some (Some (sum_list (data_buffer s key) / real (length (data_buffer s key)))))"
    by (simp add: mean_or_missing_def)
qed

theorem missing_channels_are_None_witness:
  "''HR'' \<in> set (tl fieldnames) \<and> ''EDA'' \<in> set (tl fieldnames) \<and>
   data_buffer full_state ''HR'' = [] \<and> data_buffer full_state ''EDA'' = [1 / 2] \<and>
   map_sum id (\<lambda>s. map (\<lambda>r. (r ''HR'', r ''EDA'')) (csv_file s))
     (aggregate_and_save_pass not_loaded (\<lambda>m. Inr ()) 0 full_state) =
     Inr [(Some None, Some (Some (1 / 2)))]"
proof -
  have hr: "''HR'' \<in> set (tl fieldnames) \<and> ''HR'' \<noteq> ''BVA''" by (simp add: fieldnames_def)
  have eda: "''EDA'' \<in> set (tl fieldnames) \<and> ''EDA'' \<noteq> ''BVA''" by (simp add: fieldnames_def)
  have b: "data_buffer full_state ''HR'' = []" "data_buffer full_state ''EDA'' = [1 / 2]"
    by (simp_all add: full_state_buffers)
  from missing_channels_are_None [of "''HR''" not_loaded "\<lambda>m. Inr ()" 0 full_state] hr b
  obtain s' where s': "aggregate_and_save_pass not_loaded (\<lambda>m. Inr ()) 0 full_state = Inr s'"
    and csv: "csv_file s' = csv_file full_state @ [pass_row 0 (data_buffer full_state)]"
    and r1: "pass_row 0 (data_buffer full_state) ''HR'' = Some None"
    by auto
  from missing_channels_are_None [of "''EDA''" not_loaded "\<lambda>m. Inr ()" 0 full_state] eda b
  have r2: "pass_row 0 (data_buffer full_state) ''EDA'' = Some (Some (1 / 2))"
    by auto
  from hr eda b s' csv r1 r2 show ?thesis by (simp add: full_state_files)
qed

section \<open>The temperature feature\<close>

lemma split_last_TEMP2: "split_last (prefix @ ''/TEMP2'') = ''TEMP2''"
  by (simp add: split_last_def)

lemma split_last_TEMP: "split_last (prefix @ ''/TEMP'') = ''TEMP''"
  by (simp add: split_last_def)

text \<open>
  Claim C10. A message whose address ends in \<open>/TEMP2\<close> is stored under \<open>T1\<close>, one
  ending in \<open>/TEMP\<close> under \<open>TEMP\<close>. A pass that finds the \<open>T1\<close> buffer empty,
  whatever \<open>TEMP\<close> holds, returns without a feature row, a prediction row or a change
  of the alert history and the transport log, so the classifier was not asked. A pass with
  a full vector appends the feature row whose second component is the mean of the
  \<open>T1\<close> buffer.
\<close>

theorem temperature_is_T1:
  "(args \<noteq> [] \<longrightarrow>
      generic_handler (prefix @ ''/TEMP2'') args b =
        Inr (b(''T1'' := deque_append 500 (b ''T1'') (hd args))) \<and>
      generic_handler (prefix @ ''/TEMP'') args b =
        Inr (b(''TEMP'' := deque_append 500 (b ''TEMP'') (hd args)))) \<and>
   (data_buffer s ''T1'' = [] \<longrightarrow>
      (\<exists>s'. aggregate_and_save_pass ml sock ts s = Inr s' \<and>
         cogload_file s' = cogload_file s \<and> prediction_file s' = prediction_file s \<and>
         last_predictions s' = last_predictions s \<and> unity_log s' = unity_log s)) \<and>
   (data_buffer s ''EDA'' \<noteq> [] \<and> data_buffer s ''T1'' \<noteq> [] \<and>
    compute_bva (data_buffer s ''PPG:IR'') \<noteq> None \<longrightarrow>
      (\<exists>s'. aggregate_and_save_pass ml sock ts s = Inr s' \<and>
         cogload_file s' =
           cogload_file s @
             [(sum_list (data_buffer s ''EDA'') / real (length (data_buffer s ''EDA'')),
               sum_list (data_buffer s ''T1'') / real (length (data_buffer s ''T1'')), 0)]))"
proof -
  have handler: "generic_handler (prefix @ ''/TEMP2'') args b =
        Inr (b(''T1'' := deque_append 500 (b ''T1'') (hd args))) \<and>
      generic_handler (prefix @ ''/TEMP'') args b =
        Inr (b(''TEMP'' := deque_append 500 (b ''TEMP'') (hd args)))" if "args \<noteq> []"
    using that
    by (cases args) (simp_all add: generic_handler_def split_last_TEMP2 split_last_TEMP Let_def)
  have none: "\<exists>s'. aggregate_and_save_pass ml sock ts s = Inr s' \<and>
         cogload_file s' = cogload_file s \<and> prediction_file s' = prediction_file s \<and>
         last_predictions s' = last_predictions s \<and> unity_log s' = unity_log s"
    if "data_buffer s ''T1'' = []"
    using that by (simp add: pass_missing)
  have full: "\<exists>s'. aggregate_and_save_pass ml sock ts s = Inr s' \<and>
         cogload_file s' =
           cogload_file s @
             [(sum_list (data_buffer s ''EDA'') / real (length (data_buffer s ''EDA'')),
               sum_list (data_buffer s ''T1'') / real (length (data_buffer s ''T1'')), 0)]"
    if "data_buffer s ''EDA'' \<noteq> [] \<and> data_buffer s ''T1'' \<noteq> [] \<and>
        compute_bva (data_buffer s ''PPG:IR'') \<noteq> None"
  proof -
    from that obtain v where "compute_bva (data_buffer s ''PPG:IR'') = Some v" by auto
    with that show ?thesis by (simp add: pass_full)
  qed
  from handler none full show ?thesis by blast
qed

theorem temperature_is_T1_witness:
  "generic_handler ''/EmotiBit/0/TEMP2'' [30] (\<lambda>channel. []) = Inr ((\<lambda>channel. [])(''T1'' := [30])) \<and>
   data_buffer temp_only_state ''TEMP'' = [30] \<and> data_buffer temp_only_state ''T1'' = [] \<and>
   map_sum id cogload_file (aggregate_and_save_pass not_loaded (\<lambda>m. Inr ()) 0 temp_only_state) =
     Inr [] \<and>
   map_sum id prediction_file (aggregate_and_save_pass not_loaded (\<lambda>m. Inr ()) 0 temp_only_state) =
     Inr [] \<and>
   map_sum id cogload_file (aggregate_and_save_pass not_loaded (\<lambda>m. Inr ()) 0 full_state) =
     Inr [(1 / 2, 30, 0)]"
proof -
  have h: "generic_handler ''/EmotiBit/0/TEMP2'' [30] (\<lambda>channel. []) =
      Inr ((\<lambda>channel. [])(''T1'' := [30]))"
    using temperature_is_T1 [where args = "[30]" and prefix = "''/EmotiBit/0''"
        and b = "\<lambda>channel. []"]
    by (simp add: deque_append_def)
  have b: "data_buffer temp_only_state ''TEMP'' = [30]" "data_buffer temp_only_state ''T1'' = []"
    by (simp_all add: temp_only_state_def)
  have f: "cogload_file temp_only_state = []" "prediction_file temp_only_state = []"
    by (simp_all add: temp_only_state_def initial_state_def)
  from temperature_is_T1 [where s = temp_only_state and ml = not_loaded
      and sock = "\<lambda>m. Inr ()" and ts = 0] b
  obtain s' where "aggregate_and_save_pass not_loaded (\<lambda>m. Inr ()) 0 temp_only_state = Inr s'"
    "cogload_file s' = cogload_file temp_only_state"
    "prediction_file s' = prediction_file temp_only_state"
    by blast
  with f have n: "map_sum id cogload_file
        (aggregate_and_save_pass not_loaded (\<lambda>m. Inr ()) 0 temp_only_state) = Inr []"
      "map_sum id prediction_file
        (aggregate_and_save_pass not_loaded (\<lambda>m. Inr ()) 0 temp_only_state) = Inr []"
    by simp_all
  have fb: "data_buffer full_state ''EDA'' \<noteq> [] \<and> data_buffer full_state ''T1'' \<noteq> [] \<and>
      compute_bva (data_buffer full_state ''PPG:IR'') \<noteq> None"
    by (simp add: full_state_bva) (simp add: full_state_buffers)
  from temperature_is_T1 [where s = full_state and ml = not_loaded
      and sock = "\<lambda>m. Inr ()" and ts = 0] fb
  obtain s'' where "aggregate_and_save_pass not_loaded (\<lambda>m. Inr ()) 0 full_state = Inr s''"
    "cogload_file s'' = cogload_file full_state @
             [(sum_list (data_buffer full_state ''EDA'') / real (length (data_buffer full_state ''EDA'')),
               sum_list (data_buffer full_state ''T1'') / real (length (data_buffer full_state ''T1'')), 0)]"
    by blast
  then have g: "map_sum id cogload_file
      (aggregate_and_save_pass not_loaded (\<lambda>m. Inr ()) 0 full_state) = Inr [(1 / 2, 30, 0)]"
    by (simp add: full_state_files full_state_buffers)
  from h b n g show ?thesis by simp
qed

section \<open>Sentinel labels and the alert\<close>

lemma every_pass_full_step:
  assumes "every_pass_full ml (p # ps) s"
  obtains v where
    "data_buffer (s\<lparr>data_buffer := receive (messages p) (data_buffer s)\<rparr>) ''EDA'' \<noteq> []"
    "data_buffer (s\<lparr>data_buffer := receive (messages p) (data_buffer s)\<rparr>) ''T1'' \<noteq> []"
    "compute_bva (data_buffer (s\<lparr>data_buffer := receive (messages p) (data_buffer s)\<rparr>) ''PPG:IR'')
       = Some v"
  using assms by (auto simp add: Let_def full_vector_def)

lemma run_constant_label:
  assumes const: "\<forall>e t b. predict_cognitive_load ml e t b = l"
  shows "last_predictions s = replicate k l \<Longrightarrow> k + length ps = 10 \<Longrightarrow> ps \<noteq> [] \<Longrightarrow>
     every_pass_full ml ps s \<Longrightarrow>
     \<exists>s'. run_passes ml ps s = Inr s' \<and> last_predictions s' = [] \<and>
          unity_log s' =
            send_unity_alert (sendto (last ps)) (''ALERT|'' @ upper l) (unity_log s)"
proof (induction ps arbitrary: s k)
  case Nil
  then show ?case by simp
next
  case (Cons p ps)
  let ?s1 = "s\<lparr>data_buffer := receive (messages p) (data_buffer s)\<rparr>"
  from Cons.prems(4) obtain v where full:
    "data_buffer ?s1 ''EDA'' \<noteq> []" "data_buffer ?s1 ''T1'' \<noteq> []"
    "compute_bva (data_buffer ?s1 ''PPG:IR'') = Some v"
    by (rule every_pass_full_step)
  define s2 where "s2 = ?s1\<lparr>data_buffer := pass_buffers (data_buffer ?s1),
            csv_file := csv_file ?s1 @ [pass_row (timestamp p) (data_buffer ?s1)],
            cogload_file := cogload_file ?s1 @
              [(sum_list (data_buffer ?s1 ''EDA'') / real (length (data_buffer ?s1 ''EDA'')),
                sum_list (data_buffer ?s1 ''T1'') / real (length (data_buffer ?s1 ''T1'')), 0)],
            prediction_file :=
              prediction_file ?s1 @
                [(timestamp p,
                  sum_list (data_buffer ?s1 ''EDA'') / real (length (data_buffer ?s1 ''EDA'')),
                  sum_list (data_buffer ?s1 ''T1'') / real (length (data_buffer ?s1 ''T1'')), 0, l)],
            last_predictions :=
              fst (update_history (sendto p) l (last_predictions ?s1, unity_log ?s1)),
            unity_log :=
              snd (update_history (sendto p) l (last_predictions ?s1, unity_log ?s1))\<rparr>"
  have pass: "aggregate_and_save_pass ml (sendto p) (timestamp p) ?s1 = Inr s2"
    unfolding s2_def using pass_full [OF full refl refl, of ml "sendto p" "timestamp p"]
    by (simp only: const)
  have hist: "last_predictions s2 = fst (update_history (sendto p) l (replicate k l, unity_log s))"
    and lg: "unity_log s2 = snd (update_history (sendto p) l (replicate k l, unity_log s))"
    by (simp_all add: s2_def Cons.prems(1))
  from Cons.prems(4) pass have rest: "every_pass_full ml ps s2"
    by (simp add: Let_def)
  have run: "run_passes ml (p # ps) s = run_passes ml ps s2"
    using pass by simp
  show ?case
  proof (cases "ps = []")
    case True
    with Cons.prems(2) have "k = 9" by simp
    with hist lg have "last_predictions s2 = []"
      "unity_log s2 = send_unity_alert (sendto p) (''ALERT|'' @ upper l) (unity_log s)"
      by (simp_all add: update_history_tenth)
    with True run show ?thesis by simp
  next
    case False
    with Cons.prems(2) have k: "k < 9" by (cases ps) simp_all
    then have "update_history (sendto p) l (replicate k l, unity_log s) =
        (replicate k l @ [l], unity_log s)"
      by (intro update_history_short) simp
    with hist lg have h2: "last_predictions s2 = replicate (Suc k) l" and l2: "unity_log s2 = unity_log s"
      by (simp_all add: replicate_append_same)
    from Cons.prems(2) have "Suc k + length ps = 10" by simp
    from Cons.IH [OF h2 this False rest] l2 run False show ?thesis by simp
  qed
qed

lemma upper_sentinels:
  "upper ''MODEL_NOT_LOADED'' = ''MODEL_NOT_LOADED''"
  "upper ''PREDICTION_ERROR'' = ''PREDICTION_ERROR''"
  by (simp_all add: upper_def upper_char_def)

lemma received_on_empty:
  "b ''EDA'' = [] \<Longrightarrow> b ''T1'' = [] \<Longrightarrow> b ''PPG:IR'' = [] \<Longrightarrow>
   receive (messages full_pass) b =
     b(''EDA'' := [1 / 2], ''T1'' := [30], ''PPG:IR'' := ppg_example)"
  by (simp add: full_pass_def ppg_messages_def ppg_example_def generic_handler_def
        split_last_def deque_append_def)

lemma every_full_pass:
  "data_buffer s ''EDA'' = [] \<Longrightarrow> data_buffer s ''T1'' = [] \<Longrightarrow>
   data_buffer s ''PPG:IR'' = [] \<Longrightarrow> every_pass_full ml (replicate n full_pass) s"
proof (induction n arbitrary: s)
  case 0
  then show ?case by simp
next
  case (Suc n)
  let ?b = "receive (messages full_pass) (data_buffer s)"
  from Suc.prems have b: "?b = (data_buffer s)(''EDA'' := [1 / 2], ''T1'' := [30], ''PPG:IR'' := ppg_example)"
    by (rule received_on_empty)
  then have full: "full_vector ?b"
    by (simp add: full_vector_def compute_bva_example)
  let ?s2 = "save_and_alert ml (sendto full_pass) (timestamp full_pass) (pass_row (timestamp full_pass) ?b)
            (mean_or_missing (?b ''EDA'')) (mean_or_missing (?b ''T1''))
            (map_option (\<lambda>v. 0) (compute_bva (?b ''PPG:IR'')))
            (s\<lparr>data_buffer := pass_buffers ?b\<rparr>)"
  have pass: "aggregate_and_save_pass ml (sendto full_pass) (timestamp full_pass)
      (s\<lparr>data_buffer := ?b\<rparr>) = Inr ?s2"
    by (simp add: pass_eq)
  have db: "data_buffer ?s2 = pass_buffers ?b"
    by (simp add: save_and_alert_def Let_def case_prod_beta split: option.split)
  have e1: "data_buffer ?s2 ''EDA'' = []"
    unfolding db by (simp add: pass_buffers_def EDA_channel)
  have e2: "data_buffer ?s2 ''T1'' = []"
    unfolding db by (simp add: pass_buffers_def T1_channel)
  have e3: "data_buffer ?s2 ''PPG:IR'' = []"
    unfolding db by (simp add: pass_buffers_def)
  have "every_pass_full ml (replicate n full_pass) ?s2"
    using e1 e2 e3 by (rule Suc.IH)
  with full pass show ?case by (simp add: Let_def)
qed

text \<open>
  Claim C9. A pass with a full feature vector returns, and its alert history and
  transport log are those of \<^const>\<open>update_history\<close> applied to whatever label
  \<^const>\<open>predict_cognitive_load\<close> gave, sentinel or not. Ten consecutive passes with a
  full vector, from an empty history, with a collaborator unset, call the transport
  exactly once, at the tenth pass, with \<open>ALERT|MODEL_NOT_LOADED\<close>, and leave the history
  empty; the same holds with \<open>ALERT|PREDICTION_ERROR\<close> when scoring fails on every input.
\<close>

theorem sentinels_count_towards_alert:
  "(full_vector (data_buffer s) \<longrightarrow>
      (\<exists>s' e t. aggregate_and_save_pass ml sock ts s = Inr s' \<and>
         mean_or_missing (data_buffer s ''EDA'') = Some e \<and>
         mean_or_missing (data_buffer s ''T1'') = Some t \<and>
         (last_predictions s', unity_log s') =
           update_history sock (predict_cognitive_load ml e t 0)
             (last_predictions s, unity_log s))) \<and>
   ((clf ml = None \<or> std_scaler ml = None \<or> bva_scaler ml = None \<or> label_encoder ml = None) \<and>
    last_predictions s = [] \<and> length ps = 10 \<and> every_pass_full ml ps s \<longrightarrow>
      (\<exists>s'. run_passes ml ps s = Inr s' \<and> last_predictions s' = [] \<and>
         unity_log s' =
           send_unity_alert (sendto (last ps)) ''ALERT|MODEL_NOT_LOADED'' (unity_log s))) \<and>
   ((\<forall>e t b. predict_cognitive_load ml e t b = ''PREDICTION_ERROR'') \<and>
    last_predictions s = [] \<and> length ps = 10 \<and> every_pass_full ml ps s \<longrightarrow>
      (\<exists>s'. run_passes ml ps s = Inr s' \<and> last_predictions s' = [] \<and>
         unity_log s' =
           send_unity_alert (sendto (last ps)) ''ALERT|PREDICTION_ERROR'' (unity_log s)))"
proof -
  have one: "\<exists>s' e t. aggregate_and_save_pass ml sock ts s = Inr s' \<and>
         mean_or_missing (data_buffer s ''EDA'') = Some e \<and>
         mean_or_missing (data_buffer s ''T1'') = Some t \<and>
         (last_predictions s', unity_log s') =
           update_history sock (predict_cognitive_load ml e t 0)
             (last_predictions s, unity_log s)"
    if "full_vector (data_buffer s)"
  proof -
    from that obtain v where full: "data_buffer s ''EDA'' \<noteq> []" "data_buffer s ''T1'' \<noteq> []"
      "compute_bva (data_buffer s ''PPG:IR'') = Some v"
      by (auto simp add: full_vector_def)
    from pass_full [OF full refl refl, of ml sock ts] full show ?thesis
      by (simp add: mean_or_missing_def)
  qed
  have ten: "\<exists>s'. run_passes ml ps s = Inr s' \<and> last_predictions s' = [] \<and>
         unity_log s' = send_unity_alert (sendto (last ps)) (''ALERT|'' @ upper l) (unity_log s)"
    if "\<forall>e t b. predict_cognitive_load ml e t b = l" "last_predictions s = []"
      "length ps = 10" "every_pass_full ml ps s" for l
  proof -
    from that(3) have "ps \<noteq> []" by auto
    with run_constant_label [OF that(1), of s 0 ps] that show ?thesis by simp
  qed
  have unloaded: "\<forall>e t b. predict_cognitive_load ml e t b = ''MODEL_NOT_LOADED''"
    if "clf ml = None \<or> std_scaler ml = None \<or> bva_scaler ml = None \<or> label_encoder ml = None"
    using that by (simp add: predict_cognitive_load_def)
  from one ten [of "''MODEL_NOT_LOADED''"] ten [of "''PREDICTION_ERROR''"] unloaded
  show ?thesis
    unfolding upper_sentinels append.simps by blast
qed

theorem sentinels_count_towards_alert_witness:
  "clf not_loaded = None \<and> length (replicate 10 full_pass) = 10 \<and>
   every_pass_full not_loaded (replicate 10 full_pass) initial_state \<and>
   map_sum id unity_log (run_passes not_loaded (replicate 10 full_pass) initial_state) =
     Inr [Sent ''ALERT|MODEL_NOT_LOADED''] \<and>
   map_sum id last_predictions (run_passes not_loaded (replicate 10 full_pass) initial_state) =
     Inr []"
proof -
  have c: "clf not_loaded = None" by (simp add: not_loaded_def load_ml_components_def)
  have e: "every_pass_full not_loaded (replicate 10 full_pass) initial_state"
    by (rule every_full_pass) (simp_all add: initial_state_def)
  have i: "last_predictions initial_state = []" "unity_log initial_state = []"
    by (simp_all add: initial_state_def)
  have l: "sendto (last (replicate 10 full_pass)) = (\<lambda>message. Inr ())"
    by (simp add: full_pass_def)
  from sentinels_count_towards_alert [where ml = not_loaded and s = initial_state
      and ps = "replicate 10 full_pass"] c e i
  obtain s' where "run_passes not_loaded (replicate 10 full_pass) initial_state = Inr s'"
    "last_predictions s' = []"
    "unity_log s' = send_unity_alert (sendto (last (replicate 10 full_pass)))
       ''ALERT|MODEL_NOT_LOADED'' (unity_log initial_state)"
    by auto
  with c e i l show ?thesis by (simp add: send_unity_alert_def)
qed

end
